theory Spec2Isabelle
  imports Complex_Main
begin

section \<open>JavaScript values\<close>

text \<open>
  The values that \<open>body-parser\<close> puts into \<open>req.body\<close> and that the handlers send back
  with \<open>res.json\<close>. A number is the value of the double it was parsed to (\<open>-0\<close> is
  identified with \<open>0\<close>; both are falsy). \<open>JUndefined\<close> is what reading an absent
  property gives.
\<close>

datatype jsval =
    JUndefined
  | JNull
  | JBool bool
  | JNum rat
  | JStr string
  | JArr "jsval list"
  | JObj "(string \<times> jsval) list"

text \<open>\<open>!v\<close> is \<open>\<not> truthy v\<close>: the falsy values are \<open>undefined\<close>, \<open>null\<close>,
  \<open>false\<close>, \<open>0\<close> and the empty string.\<close>

fun truthy :: "jsval \<Rightarrow> bool" where
  "truthy JUndefined = False"
| "truthy JNull = False"
| "truthy (JBool b) = b"
| "truthy (JNum n) = (n \<noteq> 0)"
| "truthy (JStr s) = (s \<noteq> [])"
| "truthy (JArr xs) = True"
| "truthy (JObj kvs) = True"

text \<open>\<open>s.split(c)\<close> for a one-character separator: the pieces between the
  separators, empty pieces included; \<open>"".split(" ")\<close> is \<open>[""]\<close>.\<close>

fun js_split :: "char \<Rightarrow> string \<Rightarrow> string list" where
  "js_split c [] = [[]]"
| "js_split c (x # xs) =
     (if x = c then [] # js_split c xs
      else (case js_split c xs of
              [] \<Rightarrow> [[x]]
            | w # ws \<Rightarrow> (x # w) # ws))"

text \<open>\<open>xs[i]\<close> on an array: \<open>undefined\<close> (here \<open>None\<close>) out of range.\<close>

definition index :: "'a list \<Rightarrow> nat \<Rightarrow> 'a option" where
  "index xs i = (if i < length xs then Some (xs ! i) else None)"

text \<open>\<open>s.includes(t)\<close>: \<open>t\<close> occurs in \<open>s\<close> as a contiguous substring.\<close>

fun js_includes :: "string \<Rightarrow> string \<Rightarrow> bool" where
  "js_includes [] t = (t = [])"
| "js_includes (x # xs) t = (take (length t) (x # xs) = t \<or> js_includes xs t)"

section \<open>Requests, responses and the process environment\<close>

record uploaded_file =
  mimetype :: string
  buffer :: "nat list"

text \<open>
  The parts of an Express request the handlers read: the \<open>Authorization\<close> header, the
  route parameter \<open>:id\<close>, the parsed JSON body (absent keys read as \<open>undefined\<close>), the
  file that \<open>upload.single("image")\<close> stored in memory, and \<open>req.user\<close>, which only the
  authentication middleware writes.
\<close>

record request =
  authorization :: "string option"
  params_id :: string
  body :: "string \<rightharpoonup> jsval"
  req_file :: "uploaded_file option"
  user :: "jsval option"

definition field :: "request \<Rightarrow> string \<Rightarrow> jsval" where
  "field req k = (case body req k of None \<Rightarrow> JUndefined | Some v \<Rightarrow> v)"

datatype content = Json jsval | Text string

record response =
  status :: nat
  content :: content

definition json :: "nat \<Rightarrow> jsval \<Rightarrow> response" where
  "json st v = \<lparr>status = st, content = Json v\<rparr>"

definition send :: "nat \<Rightarrow> string \<Rightarrow> response" where
  "send st s = \<lparr>status = st, content = Text s\<rparr>"

text \<open>\<open>process.env\<close>: the two secrets the source reads. A variable that is not set
  reads as \<open>undefined\<close>.\<close>

record env =
  SUPABASE_JWT_SECRET :: "string option"
  SuperSecretKey :: "string option"

section \<open>The authentication middleware\<close>

text \<open>
  \<open>authenticateToken\<close> of \<open>middlewares/authMiddleware.js\<close>. It either answers the
  request itself or calls \<open>next()\<close> with \<open>req.user\<close> set. \<open>jwt.verify\<close> belongs to the
  \<open>jsonwebtoken\<close> library and is a parameter: it returns the decoded payload, or
  \<open>None\<close> where the library throws.
\<close>

datatype gate_result = Rejected response | Next request

type_synonym verifier = "string \<Rightarrow> string option \<Rightarrow> jsval option"

definition authenticateToken :: "verifier \<Rightarrow> env \<Rightarrow> request \<Rightarrow> gate_result" where
  "authenticateToken jwt_verify e req =
     (case authorization req of
        None \<Rightarrow> Rejected (json 401 (JObj [(''error'', JStr ''Authorization header missing'')]))
      | Some authHeader \<Rightarrow>
          if authHeader = [] then
            Rejected (json 401 (JObj [(''error'', JStr ''Authorization header missing'')]))
          else
            (case index (js_split CHR '' '' authHeader) 1 of
               None \<Rightarrow> Rejected (json 401 (JObj [(''error'', JStr ''Access token required'')]))
             | Some token \<Rightarrow>
                 if token = [] then
                   Rejected (json 401 (JObj [(''error'', JStr ''Access token required'')]))
                 else
                   (case jwt_verify token (SUPABASE_JWT_SECRET e) of
                      None \<Rightarrow>
                        Rejected (json 403 (JObj [(''error'', JStr ''Invalid or expired token'')]))
                    | Some decoded \<Rightarrow> Next (req\<lparr>user := Some decoded\<rparr>))))"

section \<open>The external services\<close>

text \<open>
  Every handler awaits at most one call of a client library (the Supabase table
  \<open>courses\<close>, Supabase Auth, or the Cloudinary uploader) and maps the result to a
  response. A handler is therefore either a response, or one request to a service
  together with the continuation that turns the service's answer into the response.
\<close>

record course_fields =
  f_name :: jsval
  f_code :: jsval
  f_description :: jsval
  f_credit :: jsval
  f_image :: jsval

datatype db_request =
    SelectAll
  | Insert course_fields
  | Update string course_fields
  | Delete string

text \<open>The \<open>{ data, error }\<close> pair of the Supabase client: an error with its \<open>code\<close>
  and \<open>message\<close>, or the array of rows that \<open>.select()\<close> returns.\<close>

datatype db_reply = DbError string string | DbData "jsval list"

datatype auth_request = SignUp jsval jsval | SignInWithPassword jsval jsval

record session =
  access_token :: string

text \<open>An authentication error with its \<open>message\<close>, or \<open>data\<close> with its \<open>session\<close>
  (which may be \<open>null\<close>).\<close>

datatype auth_reply = AuthError string | AuthData "session option"

datatype cdn_request = Upload string string

text \<open>The uploader rejects (throws), or resolves to an object with a \<open>secure_url\<close>.\<close>

datatype cdn_reply = CdnFailure | CdnUploaded string

datatype prog =
    Reply response
  | Store db_request "db_reply \<Rightarrow> response"
  | Identity auth_request "auth_reply \<Rightarrow> response"
  | Cdn cdn_request "cdn_reply \<Rightarrow> response"

section \<open>The route handlers of \<open>index.js\<close>\<close>

text \<open>\<open>POST /upload-image\<close>. Reading \<open>req.file.mimetype\<close> when no file was sent throws
  inside the \<open>try\<close>. The base64 encoding of the buffer is Node's and is a parameter.\<close>

definition post_upload_image :: "(nat list \<Rightarrow> string) \<Rightarrow> request \<Rightarrow> prog" where
  "post_upload_image base64 req =
     (case req_file req of
        None \<Rightarrow> Reply (json 500 (JObj [(''error'', JStr ''Image upload failed'')]))
      | Some f \<Rightarrow>
          Cdn (Upload (''data:'' @ mimetype f @ '';base64,'' @ base64 (buffer f)) ''courses'')
            (\<lambda>r. case r of
                   CdnUploaded secure_url \<Rightarrow> json 200 (JObj [(''imageUrl'', JStr secure_url)])
                 | CdnFailure \<Rightarrow> json 500 (JObj [(''error'', JStr ''Image upload failed'')])))"

definition get_root :: "request \<Rightarrow> prog" where
  "get_root req = Reply (json 200 (JStr ''Our backend is running!''))"

definition get_courses :: "request \<Rightarrow> prog" where
  "get_courses req =
     Store SelectAll
       (\<lambda>r. case r of
              DbError c m \<Rightarrow> send 500 ''Server error''
            | DbData d \<Rightarrow> json 200 (JArr d))"

text \<open>\<open>data[0]\<close>.\<close>

definition first_row :: "jsval list \<Rightarrow> jsval" where
  "first_row d = (case index d 0 of None \<Rightarrow> JUndefined | Some r \<Rightarrow> r)"

definition post_courses :: "request \<Rightarrow> prog" where
  "post_courses req =
     (let name = field req ''name''; code = field req ''code'';
          description = field req ''description''; credit = field req ''credit'';
          image = field req ''image''
      in if \<not> truthy name \<or> \<not> truthy code \<or> \<not> truthy description
            \<or> \<not> truthy credit \<or> \<not> truthy image
         then Reply (json 400 (JObj [(''error'', JStr ''All fields must be provided'')]))
         else
           Store (Insert \<lparr>f_name = name, f_code = code, f_description = description,
                           f_credit = credit, f_image = image\<rparr>)
             (\<lambda>r. case r of
                    DbError c m \<Rightarrow>
                      if c = ''23505''
                      then json 400 (JObj [(''error'', JStr ''Course with this code already exists'')])
                      else json 500 (JObj [(''error'', JStr ''Failed to add course'')])
                  | DbData d \<Rightarrow> json 201 (first_row d)))"

definition put_course :: "request \<Rightarrow> prog" where
  "put_course req =
     (let id = params_id req;
          name = field req ''name''; code = field req ''code'';
          description = field req ''description''; credit = field req ''credit'';
          image = field req ''image''
      in if \<not> truthy name \<or> \<not> truthy code \<or> \<not> truthy description
            \<or> \<not> truthy credit \<or> \<not> truthy image
         then Reply (json 400 (JObj [(''error'', JStr ''All fields must be provided'')]))
         else
           Store (Update id \<lparr>f_name = name, f_code = code, f_description = description,
                              f_credit = credit, f_image = image\<rparr>)
             (\<lambda>r. case r of
                    DbError c m \<Rightarrow> json 500 (JObj [(''error'', JStr ''Failed to update course'')])
                  | DbData d \<Rightarrow>
                      if length d = 0
                      then json 404 (JObj [(''error'', JStr ''Course not found'')])
                      else json 200 (first_row d)))"

definition delete_course :: "request \<Rightarrow> prog" where
  "delete_course req =
     (let id = params_id req
      in Store (Delete id)
           (\<lambda>r. case r of
                  DbError c m \<Rightarrow> send 500 ''Server error''
                | DbData d \<Rightarrow>
                    if length d = 0
                    then send 404 ''Course not found''
                    else send 200 ''Course deleted successfully''))"

definition post_register :: "request \<Rightarrow> prog" where
  "post_register req =
     (let username = field req ''username''; password = field req ''password''
      in Identity (SignUp username password)
           (\<lambda>r. case r of
                  AuthError message \<Rightarrow>
                    if js_includes message ''already registered''
                    then json 400 (JObj [(''message'', JStr ''Username already exists'')])
                    else json 500 (JObj [(''message'', JStr ''Internal Server Error'')])
                | AuthData s \<Rightarrow>
                    json 201 (JObj [(''message'', JStr ''User registered successfully'')])))"

text \<open>\<open>generateToken\<close> signs a payload with a second secret; \<open>jwt.sign\<close> is the
  library's and is a parameter. No route calls it.\<close>

definition generateToken ::
  "(jsval \<Rightarrow> string option \<Rightarrow> string \<Rightarrow> string) \<Rightarrow> env \<Rightarrow> jsval \<Rightarrow> string" where
  "generateToken jwt_sign e payload =
     (let secretKey = SuperSecretKey e; expiration = ''1h''
      in jwt_sign payload secretKey expiration)"

text \<open>\<open>POST /login\<close>. Reading \<open>data.session.access_token\<close> when the session is
  \<open>null\<close> throws inside the \<open>try\<close>.\<close>

definition post_login :: "request \<Rightarrow> prog" where
  "post_login req =
     (let username = field req ''username''; password = field req ''password''
      in Identity (SignInWithPassword username password)
           (\<lambda>r. case r of
                  AuthError message \<Rightarrow>
                    if js_includes message ''Invalid login credentials''
                    then json 400 (JObj [(''message'', JStr ''Invalid credentials'')])
                    else json 500 (JObj [(''message'', JStr ''Internal Server Error'')])
                | AuthData None \<Rightarrow> json 500 (JObj [(''message'', JStr ''Internal Server Error'')])
                | AuthData (Some s) \<Rightarrow>
                    (let token = access_token s
                     in json 200 (JObj [(''token'', JStr token)]))))"

section \<open>The routing table\<close>

text \<open>A route registered as \<open>app.METHOD(path, authenticateToken, handler)\<close> runs the
  handler only when the middleware calls \<open>next()\<close>.\<close>

definition guarded :: "verifier \<Rightarrow> env \<Rightarrow> (request \<Rightarrow> prog) \<Rightarrow> request \<Rightarrow> prog" where
  "guarded jwt_verify e handler req =
     (case authenticateToken jwt_verify e req of
        Rejected r \<Rightarrow> Reply r
      | Next req' \<Rightarrow> handler req')"

datatype endpoint =
    PostUploadImage
  | GetRoot
  | GetCourses
  | PostCourses
  | PutCourse
  | DeleteCourse
  | PostRegister
  | PostLogin

fun app :: "verifier \<Rightarrow> (nat list \<Rightarrow> string) \<Rightarrow> env \<Rightarrow> endpoint \<Rightarrow> request \<Rightarrow> prog" where
  "app jwt_verify base64 e PostUploadImage req = post_upload_image base64 req"
| "app jwt_verify base64 e GetRoot req = get_root req"
| "app jwt_verify base64 e GetCourses req = get_courses req"
| "app jwt_verify base64 e PostCourses req = guarded jwt_verify e post_courses req"
| "app jwt_verify base64 e PutCourse req = guarded jwt_verify e put_course req"
| "app jwt_verify base64 e DeleteCourse req = guarded jwt_verify e delete_course req"
| "app jwt_verify base64 e PostRegister req = post_register req"
| "app jwt_verify base64 e PostLogin req = post_login req"

text \<open>The endpoints that change the course table.\<close>

fun mutating :: "endpoint \<Rightarrow> bool" where
  "mutating PostCourses = True"
| "mutating PutCourse = True"
| "mutating DeleteCourse = True"
| "mutating ep = False"

text \<open>The last function of each registration: the route handler itself.\<close>

fun handler_of :: "(nat list \<Rightarrow> string) \<Rightarrow> endpoint \<Rightarrow> request \<Rightarrow> prog" where
  "handler_of base64 PostUploadImage = post_upload_image base64"
| "handler_of base64 GetRoot = get_root"
| "handler_of base64 GetCourses = get_courses"
| "handler_of base64 PostCourses = post_courses"
| "handler_of base64 PutCourse = put_course"
| "handler_of base64 DeleteCourse = delete_course"
| "handler_of base64 PostRegister = post_register"
| "handler_of base64 PostLogin = post_login"

text \<open>The requests a handler sends to the course table: none or one.\<close>

fun store_calls :: "prog \<Rightarrow> db_request list" where
  "store_calls (Store q k) = [q]"
| "store_calls p = []"

section \<open>The course table\<close>

text \<open>
  Modelled from the spec: the hosted table \<open>courses\<close> is not part of the repository.
  The spec's data model gives a course a server-assigned opaque \<open>id\<close> and five
  attributes, of which \<open>code\<close> is unique, "enforced by the external store, violation
  surfaced as a conflict" (PostgreSQL's error code \<open>23505\<close>). The table is the
  list of its rows, in the order the store returns them.
\<close>

record course =
  c_id :: string
  c_fields :: course_fields

type_synonym table = "course list"

text \<open>Modelled from the spec: a row as the store returns it, an object with the id and
  the five attributes.\<close>

definition course_json :: "course \<Rightarrow> jsval" where
  "course_json r =
     JObj [(''id'', JStr (c_id r)),
           (''name'', f_name (c_fields r)),
           (''code'', f_code (c_fields r)),
           (''description'', f_description (c_fields r)),
           (''credit'', f_credit (c_fields r)),
           (''image'', f_image (c_fields r))]"

definition c_code :: "course \<Rightarrow> jsval" where
  "c_code r = f_code (c_fields r)"

text \<open>Modelled from the spec: the id the store assigns to a new row is one that no
  row has; here, a string longer than every id in the table.\<close>

definition fresh_id :: "table \<Rightarrow> string" where
  "fresh_id t = replicate (Suc (fold max (map (length \<circ> c_id) t) 0)) CHR ''1''"

text \<open>
  Modelled from the spec: what the table does with a request that it performs.
  \<open>insert\<close> fails with \<open>23505\<close> when a row has the new code, and otherwise appends
  the row under a fresh id and returns it; \<open>update ... eq("id", id)\<close> replaces the five
  attributes of the rows with that id and returns them, and fails with \<open>23505\<close>, changing
  nothing, when an updated row would share its code with another row;
  \<open>delete ... eq("id", id)\<close> removes the rows with that id and returns them;
  \<open>select("*")\<close> returns every row.
\<close>

fun db_perform :: "db_request \<Rightarrow> table \<Rightarrow> db_reply \<times> table" where
  "db_perform SelectAll t = (DbData (map course_json t), t)"
| "db_perform (Insert f) t =
     (if f_code f \<in> set (map c_code t)
      then (DbError ''23505'' ''duplicate key value violates unique constraint'', t)
      else (let r = \<lparr>c_id = fresh_id t, c_fields = f\<rparr>
            in (DbData [course_json r], t @ [r])))"
| "db_perform (Update i f) t =
     (let targets = filter (\<lambda>r. c_id r = i) t;
          others = filter (\<lambda>r. c_id r \<noteq> i) t
      in if targets \<noteq> [] \<and> (f_code f \<in> set (map c_code others) \<or> 1 < length targets)
         then (DbError ''23505'' ''duplicate key value violates unique constraint'', t)
         else (DbData (map (\<lambda>r. course_json (r\<lparr>c_fields := f\<rparr>)) targets),
               map (\<lambda>r. if c_id r = i then r\<lparr>c_fields := f\<rparr> else r) t))"
| "db_perform (Delete i) t =
     (DbData (map course_json (filter (\<lambda>r. c_id r = i) t)),
      filter (\<lambda>r. c_id r \<noteq> i) t)"

text \<open>
  Modelled from the spec: a call to the store can also fail for a reason that is not the
  uniqueness of the code: the service is unreachable, a statement times out, a value does
  not fit its column, the caller lacks a permission. The spec's error taxonomy calls this
  an unclassified external-service failure; each handler maps it to 500. Which requests
  fail in which state is not fixed by the spec, so it is a parameter: \<open>fault q t\<close> is the
  error's \<open>code\<close> and \<open>message\<close> when the store fails on \<open>q\<close> in state \<open>t\<close>, and \<open>None\<close>
  when it performs \<open>q\<close>. A request that fails changes nothing.
\<close>

type_synonym fault = "db_request \<Rightarrow> table \<Rightarrow> (string \<times> string) option"

definition db_exec :: "fault \<Rightarrow> db_request \<Rightarrow> table \<Rightarrow> db_reply \<times> table" where
  "db_exec fault q t =
     (case fault q t of
        Some (c, m) \<Rightarrow> (DbError c m, t)
      | None \<Rightarrow> db_perform q t)"

text \<open>Modelled from the spec: the table's constraints. Ids and codes are unique.\<close>

definition table_ok :: "table \<Rightarrow> bool" where
  "table_ok t = (distinct (map c_id t) \<and> distinct (map c_code t))"

text \<open>Running a handler against the table, whose failures are given by \<open>fault\<close>. The
  identity provider and the CDN do not touch the table; their answers are given by
  \<open>idp\<close> and \<open>cdn\<close>.\<close>

fun run ::
  "fault \<Rightarrow> (auth_request \<Rightarrow> auth_reply) \<Rightarrow> (cdn_request \<Rightarrow> cdn_reply) \<Rightarrow> prog \<Rightarrow> table
     \<Rightarrow> response \<times> table" where
  "run fault idp cdn (Reply r) t = (r, t)"
| "run fault idp cdn (Store q k) t = (let (a, t') = db_exec fault q t in (k a, t'))"
| "run fault idp cdn (Identity q k) t = (k (idp q), t)"
| "run fault idp cdn (Cdn q k) t = (k (cdn q), t)"

text \<open>Running a handler against arbitrary answers of the three services.\<close>

fun respond ::
  "(db_request \<Rightarrow> db_reply) \<Rightarrow> (auth_request \<Rightarrow> auth_reply) \<Rightarrow> (cdn_request \<Rightarrow> cdn_reply)
     \<Rightarrow> prog \<Rightarrow> response" where
  "respond db idp cdn (Reply r) = r"
| "respond db idp cdn (Store q k) = k (db q)"
| "respond db idp cdn (Identity q k) = k (idp q)"
| "respond db idp cdn (Cdn q k) = k (cdn q)"

text \<open>The names of the five required fields of a course.\<close>

definition required_fields :: "string list" where
  "required_fields = [''name'', ''code'', ''description'', ''credit'', ''image'']"

text \<open>The object literal \<open>{ name, code, description, credit, image }\<close> a handler
  builds from the body.\<close>

definition fields_of :: "request \<Rightarrow> course_fields" where
  "fields_of req =
     \<lparr>f_name = field req ''name'', f_code = field req ''code'',
      f_description = field req ''description'', f_credit = field req ''credit'',
      f_image = field req ''image''\<rparr>"

text \<open>A request carrying a valid token under the Bearer scheme: the header is
  \<open>Bearer\<close>, one space and a token that the verifier decodes to \<open>p\<close> under the
  configured secret.\<close>

definition valid_bearer :: "verifier \<Rightarrow> env \<Rightarrow> request \<Rightarrow> string \<Rightarrow> jsval \<Rightarrow> bool" where
  "valid_bearer jwt_verify e req tok p =
     (authorization req = Some (''Bearer '' @ tok) \<and> tok \<noteq> [] \<and> CHR '' '' \<notin> set tok
      \<and> jwt_verify tok (SUPABASE_JWT_SECRET e) = Some p)"

section \<open>Sample data\<close>

text \<open>Concrete services, requests and tables on which the theorems below are
  instantiated.\<close>

definition sample_verify :: verifier where
  "sample_verify token secret =
     (if token = ''good.token'' \<and> secret = Some ''s3cret''
      then Some (JObj [(''sub'', JStr ''u1'')]) else None)"

definition sample_env :: env where
  "sample_env = \<lparr>SUPABASE_JWT_SECRET = Some ''s3cret'', SuperSecretKey = Some ''other''\<rparr>"

definition sample_base64 :: "nat list \<Rightarrow> string" where
  "sample_base64 bytes = ''aGk=''"

definition sample_payload :: jsval where
  "sample_payload = JObj [(''sub'', JStr ''u1'')]"

definition sample_body :: "string \<rightharpoonup> jsval" where
  "sample_body =
     map_of [(''name'', JStr ''Algorithms''), (''code'', JStr ''CS345''),
             (''description'', JStr ''Design and analysis''), (''credit'', JNum 9),
             (''image'', JStr ''https://cdn.example/cs345.png'')]"

definition sample_request :: request where
  "sample_request =
     \<lparr>authorization = Some ''Bearer good.token'', params_id = ''1'', body = sample_body,
      req_file = None, user = None\<rparr>"

definition sample_fields :: course_fields where
  "sample_fields =
     \<lparr>f_name = JStr ''Algorithms'', f_code = JStr ''CS345'',
      f_description = JStr ''Design and analysis'', f_credit = JNum 9,
      f_image = JStr ''https://cdn.example/cs345.png''\<rparr>"

definition old_fields :: course_fields where
  "old_fields =
     \<lparr>f_name = JStr ''Data structures'', f_code = JStr ''CS210'',
      f_description = JStr ''Lists and trees'', f_credit = JNum 9,
      f_image = JStr ''https://cdn.example/cs210.png''\<rparr>"

definition maths_fields :: course_fields where
  "maths_fields =
     \<lparr>f_name = JStr ''Calculus'', f_code = JStr ''MTH101'',
      f_description = JStr ''Limits and series'', f_credit = JNum 11,
      f_image = JStr ''https://cdn.example/mth101.png''\<rparr>"

text \<open>A table with the courses CS210 (id 1) and MTH101 (id 2), and one with CS345
  (id 1) and MTH101 (id 2).\<close>

definition sample_table :: table where
  "sample_table =
     [\<lparr>c_id = ''1'', c_fields = old_fields\<rparr>, \<lparr>c_id = ''2'', c_fields = maths_fields\<rparr>]"

definition taken_table :: table where
  "taken_table =
     [\<lparr>c_id = ''1'', c_fields = sample_fields\<rparr>, \<lparr>c_id = ''2'', c_fields = maths_fields\<rparr>]"

definition sample_session :: session where
  "sample_session = \<lparr>access_token = ''provider.issued.jwt''\<rparr>"

definition sample_idp :: "auth_request \<Rightarrow> auth_reply" where
  "sample_idp q = AuthData (Some sample_session)"

definition sample_cdn :: "cdn_request \<Rightarrow> cdn_reply" where
  "sample_cdn q = CdnUploaded ''https://res.cloudinary.example/courses/a.png''"

definition sample_db :: "db_request \<Rightarrow> db_reply" where
  "sample_db q = DbData []"

text \<open>The sample request under the scheme \<open>Basic\<close>.\<close>

definition basic_request :: request where
  "basic_request =
     \<lparr>authorization = Some ''Basic good.token'', params_id = ''1'', body = sample_body,
      req_file = None, user = None\<rparr>"

text \<open>A table client whose every call fails with a unique-key violation.\<close>

definition conflict_db :: "db_request \<Rightarrow> db_reply" where
  "conflict_db q = DbError ''23505'' ''duplicate key value violates unique constraint''"

text \<open>The sample request without the field \<open>image\<close>, and with \<open>credit\<close> equal to
  the number 0.\<close>

definition no_image_request :: request where
  "no_image_request = sample_request\<lparr>body := sample_body(''image'' := None)\<rparr>"

definition zero_credit_request :: request where
  "zero_credit_request = sample_request\<lparr>body := sample_body(''credit'' \<mapsto> JNum 0)\<rparr>"

text \<open>A table in which the course with id 3 already has the code CS345 of the
  sample request, whose \<open>:id\<close> is 1.\<close>

definition clash_table :: table where
  "clash_table =
     [\<lparr>c_id = ''1'', c_fields = old_fields\<rparr>, \<lparr>c_id = ''3'', c_fields = sample_fields\<rparr>]"

text \<open>The sample request for an id that no row of the sample table has.\<close>

definition absent_id_request :: request where
  "absent_id_request = sample_request\<lparr>params_id := ''9''\<rparr>"

text \<open>A request with a username and a password, and identity providers that reject
  it: wrong password, identity already registered, password too short.\<close>

definition login_request :: request where
  "login_request =
     \<lparr>authorization = None, params_id = [],
      body = map_of [(''username'', JStr ''student@iitk.ac.in''), (''password'', JStr ''abc'')],
      req_file = None, user = None\<rparr>"

definition wrong_password_idp :: "auth_request \<Rightarrow> auth_reply" where
  "wrong_password_idp q = AuthError ''Invalid login credentials''"

definition registered_idp :: "auth_request \<Rightarrow> auth_reply" where
  "registered_idp q = AuthError ''User already registered''"

definition weak_password_idp :: "auth_request \<Rightarrow> auth_reply" where
  "weak_password_idp q = AuthError ''Password should be at least 6 characters''"

text \<open>A request with a file in the multipart field and no \<open>Authorization\<close> header,
  and a CDN whose upload fails.\<close>

definition sample_file :: uploaded_file where
  "sample_file = \<lparr>mimetype = ''image/png'', buffer = [104, 105]\<rparr>"

definition upload_request :: request where
  "upload_request =
     \<lparr>authorization = None, params_id = [], body = Map.empty,
      req_file = Some sample_file, user = None\<rparr>"

definition failing_cdn :: "cdn_request \<Rightarrow> cdn_reply" where
  "failing_cdn q = CdnFailure"

text \<open>A store that performs every request; one that rejects a \<open>credit\<close> that is not a
  number and an id that is not written in digits, with PostgreSQL's code \<open>22P02\<close>; and
  one on which every statement times out.\<close>

definition no_fault :: fault where
  "no_fault q t = None"

definition digits :: "string \<Rightarrow> bool" where
  "digits s = (s \<noteq> [] \<and> list_all (\<lambda>c. c \<in> set ''0123456789'') s)"

fun numeric :: "jsval \<Rightarrow> bool" where
  "numeric (JNum n) = True"
| "numeric v = False"

fun type_fault :: fault where
  "type_fault SelectAll t = None"
| "type_fault (Insert f) t =
     (if numeric (f_credit f) then None
      else Some (''22P02'', ''invalid input syntax for type numeric''))"
| "type_fault (Update i f) t =
     (if digits i \<and> numeric (f_credit f) then None
      else Some (''22P02'', ''invalid input syntax''))"
| "type_fault (Delete i) t =
     (if digits i then None
      else Some (''22P02'', ''invalid input syntax for type bigint''))"

definition timeout_fault :: fault where
  "timeout_fault q t = Some (''57014'', ''canceling statement due to statement timeout'')"

text \<open>The sample request with the credit written as a word, and with an id that is not
  a number.\<close>

definition text_credit_request :: request where
  "text_credit_request = sample_request\<lparr>body := sample_body(''credit'' \<mapsto> JStr ''nine'')\<rparr>"

definition word_id_request :: request where
  "word_id_request = sample_request\<lparr>params_id := ''abc''\<rparr>"

section \<open>Auxiliary facts\<close>

lemma js_split_nosep: "c \<notin> set w \<Longrightarrow> js_split c w = [w]"
  by (induction w) auto

lemma js_split_sep: "c \<notin> set w \<Longrightarrow> js_split c (w @ c # rest) = w # js_split c rest"
  by (induction w) (auto split: list.splits)

lemma js_split_second:
  assumes "c \<notin> set w" "c \<notin> set tok" "rest = [] \<or> hd rest = c"
  shows "index (js_split c (w @ c # tok @ rest)) 1 = Some tok"
proof (cases rest)
  case Nil
  then show ?thesis using assms by (simp add: js_split_sep js_split_nosep index_def)
next
  case (Cons a m)
  then have "rest = c # m" using assms by auto
  then show ?thesis using assms by (simp add: js_split_sep index_def)
qed

lemma gate_no_header:
  "authorization req = None \<or> authorization req = Some [] \<Longrightarrow>
   authenticateToken jv e req =
     Rejected (json 401 (JObj [(''error'', JStr ''Authorization header missing'')]))"
  by (auto simp: authenticateToken_def)

lemma gate_scheme_only:
  "authorization req = Some scheme \<Longrightarrow> scheme \<noteq> [] \<Longrightarrow> CHR '' '' \<notin> set scheme \<Longrightarrow>
   authenticateToken jv e req =
     Rejected (json 401 (JObj [(''error'', JStr ''Access token required'')]))"
  by (simp add: authenticateToken_def js_split_nosep index_def)

lemma gate_token:
  assumes "authorization req = Some (scheme @ CHR '' '' # tok @ rest)"
    and "CHR '' '' \<notin> set scheme" and "CHR '' '' \<notin> set tok"
    and "rest = [] \<or> hd rest = CHR '' ''"
  shows "authenticateToken jv e req =
     (if tok = [] then Rejected (json 401 (JObj [(''error'', JStr ''Access token required'')]))
      else (case jv tok (SUPABASE_JWT_SECRET e) of
              None \<Rightarrow> Rejected (json 403 (JObj [(''error'', JStr ''Invalid or expired token'')]))
            | Some decoded \<Rightarrow> Next (req\<lparr>user := Some decoded\<rparr>)))"
  using assms js_split_second [OF assms(2,3,4)]
  by (simp add: authenticateToken_def)

lemma bearer_passes:
  assumes "authorization req = Some (''Bearer '' @ tok)" and "tok \<noteq> []"
    and "CHR '' '' \<notin> set tok" and "jv tok (SUPABASE_JWT_SECRET e) = Some p"
  shows "guarded jv e h req = h (req\<lparr>user := Some p\<rparr>)"
proof -
  have "authorization req = Some (''Bearer'' @ CHR '' '' # tok @ [])"
    using assms(1) by simp
  from gate_token [OF this, of jv e] assms show ?thesis
    by (simp add: guarded_def)
qed

lemma field_user [simp]: "field (req\<lparr>user := u\<rparr>) k = field req k"
  by (simp add: field_def)

lemma fields_of_user [simp]: "fields_of (req\<lparr>user := u\<rparr>) = fields_of req"
  by (simp add: fields_of_def)

lemma post_courses_falsy:
  "k \<in> set required_fields \<Longrightarrow> \<not> truthy (field req k) \<Longrightarrow>
   post_courses req = Reply (json 400 (JObj [(''error'', JStr ''All fields must be provided'')]))"
  by (auto simp: required_fields_def post_courses_def Let_def)

lemma put_course_falsy:
  "k \<in> set required_fields \<Longrightarrow> \<not> truthy (field req k) \<Longrightarrow>
   put_course req = Reply (json 400 (JObj [(''error'', JStr ''All fields must be provided'')]))"
  by (auto simp: required_fields_def put_course_def Let_def)

lemma fold_max_ge: "a \<le> fold max xs (a::nat) \<and> (\<forall>x \<in> set xs. x \<le> fold max xs a)"
proof (induction xs arbitrary: a)
  case Nil
  show ?case by simp
next
  case (Cons y ys)
  from Cons [of "max y a"] show ?case by auto
qed

lemma fresh_id_new: "fresh_id t \<notin> set (map c_id t)"
proof
  assume "fresh_id t \<in> set (map c_id t)"
  then obtain r where r: "r \<in> set t" and eq: "c_id r = fresh_id t" by auto
  have "length (c_id r) \<in> set (map (length \<circ> c_id) t)" using r by auto
  then have "length (c_id r) \<le> fold max (map (length \<circ> c_id) t) 0"
    using fold_max_ge [of 0 "map (length \<circ> c_id) t"] by blast
  moreover have "length (fresh_id t) = Suc (fold max (map (length \<circ> c_id) t) 0)"
    by (simp add: fresh_id_def)
  ultimately show False using eq by simp
qed

lemma filter_key_single:
  "distinct (map f xs) \<Longrightarrow> x \<in> set xs \<Longrightarrow> filter (\<lambda>y. f y = f x) xs = [x]"
proof (induction xs)
  case Nil
  then show ?case by simp
next
  case (Cons a as)
  show ?case
  proof (cases "a = x")
    case True
    have "f x \<notin> f ` set as" using Cons.prems True by simp
    then have "\<forall>y \<in> set as. f y \<noteq> f x" by (metis imageI)
    then have "filter (\<lambda>y. f y = f x) as = []"
      by (simp add: filter_empty_conv)
    then show ?thesis using True by simp
  next
    case False
    then have "x \<in> set as" using Cons.prems by simp
    moreover have "f a \<noteq> f x" using Cons.prems \<open>x \<in> set as\<close> by auto
    ultimately show ?thesis using Cons by simp
  qed
qed

lemma filter_other_remove1:
  "distinct (map f xs) \<Longrightarrow> x \<in> set xs \<Longrightarrow> filter (\<lambda>y. f y \<noteq> f x) xs = remove1 x xs"
proof (induction xs)
  case Nil
  then show ?case by simp
next
  case (Cons a as)
  show ?case
  proof (cases "a = x")
    case True
    have "f x \<notin> f ` set as" using Cons.prems True by simp
    then have "\<forall>y \<in> set as. f y \<noteq> f x" by (metis imageI)
    then have "filter (\<lambda>y. f y \<noteq> f x) as = as"
      by (simp add: filter_id_conv)
    then show ?thesis using True by simp
  next
    case False
    then have "x \<in> set as" using Cons.prems by simp
    moreover have "f a \<noteq> f x" using Cons.prems \<open>x \<in> set as\<close> by auto
    ultimately show ?thesis using Cons False by simp
  qed
qed

lemma filter_none: "i \<notin> set (map f xs) \<Longrightarrow> filter (\<lambda>y. f y = i) xs = []"
  by (auto simp: filter_empty_conv)

lemma filter_all: "i \<notin> set (map f xs) \<Longrightarrow> filter (\<lambda>y. f y \<noteq> i) xs = xs"
  by (auto simp: filter_id_conv)

lemma map_unchanged: "i \<notin> set (map f xs) \<Longrightarrow> map (\<lambda>y. if f y = i then g y else y) xs = xs"
  by (induction xs) auto

lemma post_courses_run_failed:
  assumes "\<forall>k \<in> set required_fields. truthy (field req k)"
    and "fault (Insert (fields_of req)) t = Some (c, m)" and "c \<noteq> ''23505''"
  shows "run fault idp cdn (post_courses req) t =
    (json 500 (JObj [(''error'', JStr ''Failed to add course'')]), t)"
  using assms
  by (simp add: required_fields_def post_courses_def Let_def fields_of_def db_exec_def)

lemma post_courses_run_conflict:
  assumes "\<forall>k \<in> set required_fields. truthy (field req k)"
    and "fault (Insert (fields_of req)) t = None"
    and "field req ''code'' \<in> set (map c_code t)"
  shows "run fault idp cdn (post_courses req) t =
    (json 400 (JObj [(''error'', JStr ''Course with this code already exists'')]), t)"
  using assms
  by (simp add: required_fields_def post_courses_def Let_def fields_of_def db_exec_def)

lemma post_courses_run_created:
  assumes "\<forall>k \<in> set required_fields. truthy (field req k)"
    and "fault (Insert (fields_of req)) t = None"
    and "field req ''code'' \<notin> set (map c_code t)"
  shows "run fault idp cdn (post_courses req) t =
    (json 201 (course_json \<lparr>c_id = fresh_id t, c_fields = fields_of req\<rparr>),
     t @ [\<lparr>c_id = fresh_id t, c_fields = fields_of req\<rparr>])"
  using assms
  by (simp add: required_fields_def post_courses_def Let_def fields_of_def first_row_def
      index_def db_exec_def)

lemma insert_keeps_table_ok:
  assumes "table_ok t" and "f_code f \<notin> set (map c_code t)"
  shows "table_ok (t @ [\<lparr>c_id = fresh_id t, c_fields = f\<rparr>])"
  using assms fresh_id_new [of t] by (simp add: table_ok_def c_code_def)

lemma put_course_run_failed:
  assumes "\<forall>k \<in> set required_fields. truthy (field req k)"
    and "fault (Update (params_id req) (fields_of req)) t = Some (c, m)"
  shows "run fault idp cdn (put_course req) t =
    (json 500 (JObj [(''error'', JStr ''Failed to update course'')]), t)"
  using assms
  by (simp add: required_fields_def put_course_def Let_def fields_of_def db_exec_def)

lemma put_course_run_missing:
  assumes "\<forall>k \<in> set required_fields. truthy (field req k)"
    and "fault (Update (params_id req) (fields_of req)) t = None"
    and "params_id req \<notin> set (map c_id t)"
  shows "run fault idp cdn (put_course req) t =
    (json 404 (JObj [(''error'', JStr ''Course not found'')]), t)"
  using assms filter_none [OF assms(3)] map_unchanged [OF assms(3)]
  by (simp add: required_fields_def put_course_def Let_def fields_of_def db_exec_def)

lemma put_course_run_updated:
  assumes "\<forall>k \<in> set required_fields. truthy (field req k)"
    and "fault (Update (params_id req) (fields_of req)) t = None"
    and "table_ok t" and "r \<in> set t" and "c_id r = params_id req"
    and "field req ''code'' \<notin> set (map c_code (remove1 r t))"
  shows "run fault idp cdn (put_course req) t =
    (json 200 (course_json (r\<lparr>c_fields := fields_of req\<rparr>)),
     map (\<lambda>x. if c_id x = params_id req then x\<lparr>c_fields := fields_of req\<rparr> else x) t)"
proof -
  have d: "distinct (map c_id t)" using assms(3) by (simp add: table_ok_def)
  have targets: "filter (\<lambda>x. c_id x = params_id req) t = [r]"
    using filter_key_single [OF d assms(4)] assms(5) by simp
  have others: "filter (\<lambda>x. c_id x \<noteq> params_id req) t = remove1 r t"
    using filter_other_remove1 [OF d assms(4)] assms(5) by simp
  show ?thesis
    using assms(1,2,6) targets others
    by (simp add: required_fields_def put_course_def Let_def fields_of_def first_row_def
        index_def db_exec_def)
qed

lemma delete_course_run_failed:
  assumes "fault (Delete (params_id req)) t = Some (c, m)"
  shows "run fault idp cdn (delete_course req) t = (send 500 ''Server error'', t)"
  using assms by (simp add: delete_course_def Let_def db_exec_def)

lemma delete_course_run_missing:
  assumes "fault (Delete (params_id req)) t = None"
    and "params_id req \<notin> set (map c_id t)"
  shows "run fault idp cdn (delete_course req) t = (send 404 ''Course not found'', t)"
  using assms(1) filter_none [OF assms(2)] filter_all [OF assms(2)]
  by (simp add: delete_course_def Let_def db_exec_def)

lemma delete_course_run_removed:
  assumes "fault (Delete (params_id req)) t = None"
    and "table_ok t" and "r \<in> set t" and "c_id r = params_id req"
  shows "run fault idp cdn (delete_course req) t =
    (send 200 ''Course deleted successfully'', remove1 r t)"
proof -
  have d: "distinct (map c_id t)" using assms(2) by (simp add: table_ok_def)
  have targets: "filter (\<lambda>x. c_id x = params_id req) t = [r]"
    using filter_key_single [OF d assms(3)] assms(4) by simp
  have others: "filter (\<lambda>x. c_id x \<noteq> params_id req) t = remove1 r t"
    using filter_other_remove1 [OF d assms(3)] assms(4) by simp
  show ?thesis using assms(1) targets others by (simp add: delete_course_def Let_def db_exec_def)
qed

lemma count_code_one:
  assumes "table_ok t" and "c \<in> set (map c_code t)"
  shows "length (filter (\<lambda>r. c_code r = c) t) = 1"
proof -
  obtain r where r: "r \<in> set t" "c_code r = c" using assms(2) by auto
  have "distinct (map c_code t)" using assms(1) by (simp add: table_ok_def)
  from filter_key_single [OF this r(1)] r(2) show ?thesis by simp
qed

lemma valid_bearer_passes:
  assumes "valid_bearer jv e req tok p"
  shows "guarded jv e h req = h (req\<lparr>user := Some p\<rparr>)"
  using assms bearer_passes [of req tok jv e p h] by (simp add: valid_bearer_def)

lemma app_mutating: "mutating ep \<Longrightarrow> app jv b e ep req = guarded jv e (handler_of b ep) req"
  by (cases ep) simp_all

lemma sample_valid: "valid_bearer sample_verify sample_env sample_request ''good.token'' sample_payload"
  by (simp add: valid_bearer_def sample_verify_def sample_env_def sample_request_def
      sample_payload_def)

lemma valid_bearer_body [simp]:
  "valid_bearer jv e (req\<lparr>body := b\<rparr>) tok p = valid_bearer jv e req tok p"
  by (simp add: valid_bearer_def)

lemma sample_truthy: "\<forall>k \<in> set required_fields. truthy (field sample_request k)"
  by (simp add: required_fields_def field_def sample_request_def sample_body_def)

lemma sample_fields_of: "fields_of sample_request = sample_fields"
  by (simp add: fields_of_def field_def sample_request_def sample_body_def sample_fields_def)

lemma validation_reply:
  assumes "valid_bearer jv e req tok p" and "h (req\<lparr>user := Some p\<rparr>) = Reply r"
  shows "guarded jv e h req = Reply r \<and> store_calls (guarded jv e h req) = []
    \<and> run fault idp cdn (guarded jv e h req) t = (r, t)"
  using valid_bearer_passes [OF assms(1), of h] assms(2) by simp

lemma valid_bearer_params [simp]:
  "valid_bearer jv e (req\<lparr>params_id := i\<rparr>) tok p = valid_bearer jv e req tok p"
  by (simp add: valid_bearer_def)

lemma field_params [simp]: "field (req\<lparr>params_id := i\<rparr>) k = field req k"
  by (simp add: field_def)

lemma sample_table_ok: "table_ok sample_table"
  by (simp add: table_ok_def sample_table_def c_code_def old_fields_def maths_fields_def)

lemma taken_table_ok: "table_ok taken_table"
  by (simp add: table_ok_def taken_table_def c_code_def sample_fields_def maths_fields_def)

lemma sample_params: "params_id sample_request = ''1''"
  by (simp add: sample_request_def)

lemma sample_code: "field sample_request ''code'' = JStr ''CS345''"
  by (simp add: field_def sample_request_def sample_body_def)

lemma update_keeps_codes_distinct:
  assumes "distinct (map c_code t)"
    and "length (filter (\<lambda>r. c_id r = i) t) \<le> 1"
    and "f_code f \<notin> set (map c_code (filter (\<lambda>r. c_id r \<noteq> i) t))"
  shows "distinct (map c_code (map (\<lambda>r. if c_id r = i then r\<lparr>c_fields := f\<rparr> else r) t))"
  using assms
proof (induction t)
  case Nil
  then show ?case by simp
next
  case (Cons a as)
  let ?u = "\<lambda>r. if c_id r = i then r\<lparr>c_fields := f\<rparr> else r"
  show ?case
  proof (cases "c_id a = i")
    case True
    then have none: "filter (\<lambda>r. c_id r = i) as = []" using Cons.prems(2) by simp
    then have all: "\<forall>r \<in> set as. c_id r \<noteq> i" by (simp add: filter_empty_conv)
    then have same: "map ?u as = as" by (induction as) auto
    have "filter (\<lambda>r. c_id r \<noteq> i) as = as" using all by (simp add: filter_id_conv)
    then have "f_code f \<notin> set (map c_code as)" using Cons.prems(3) True by simp
    then show ?thesis using True same Cons.prems(1) by (simp add: c_code_def)
  next
    case False
    have ih: "distinct (map c_code (map ?u as))"
      using Cons.IH Cons.prems False by simp
    have fa: "f_code f \<noteq> c_code a" using Cons.prems(3) False by auto
    have na: "c_code a \<notin> set (map c_code as)" using Cons.prems(1) by simp
    have "c_code (?u x) \<noteq> c_code a" if "x \<in> set as" for x
    proof (cases "c_id x = i")
      case True
      then show ?thesis using fa by (simp add: c_code_def)
    next
      case False
      have "c_code x \<in> set (map c_code as)" using that by simp
      then have "c_code x \<noteq> c_code a" using na by metis
      then show ?thesis using False by simp
    qed
    then have "c_code a \<notin> set (map c_code (map ?u as))" by force
    then show ?thesis using False ih by simp
  qed
qed

lemma db_perform_keeps_table_ok:
  assumes "table_ok t"
  shows "table_ok (snd (db_perform q t))"
proof (cases q)
  case SelectAll
  then show ?thesis using assms by simp
next
  case (Insert f)
  then show ?thesis using assms insert_keeps_table_ok [OF assms, of f]
    by (simp add: Let_def)
next
  case (Update i f)
  let ?u = "\<lambda>r. if c_id r = i then r\<lparr>c_fields := f\<rparr> else r"
  have ids: "map c_id (map ?u t) = map c_id t" by (induction t) auto
  show ?thesis
  proof (cases "filter (\<lambda>r. c_id r = i) t \<noteq> [] \<and>
      (f_code f \<in> set (map c_code (filter (\<lambda>r. c_id r \<noteq> i) t))
       \<or> 1 < length (filter (\<lambda>r. c_id r = i) t))")
    case True
    then show ?thesis using Update assms by (simp add: Let_def)
  next
    case False
    have "distinct (map c_code (map ?u t))"
    proof (cases "filter (\<lambda>r. c_id r = i) t = []")
      case True
      then have "\<forall>r \<in> set t. c_id r \<noteq> i" by (simp add: filter_empty_conv)
      then have "map ?u t = t" by (induction t) auto
      then show ?thesis using assms by (simp add: table_ok_def)
    next
      case nonempty: False
      then have "length (filter (\<lambda>r. c_id r = i) t) \<le> 1"
        and "f_code f \<notin> set (map c_code (filter (\<lambda>r. c_id r \<noteq> i) t))"
        using False by auto
      then show ?thesis
        using update_keeps_codes_distinct [of t i f] assms by (simp add: table_ok_def)
    qed
    moreover have "distinct (map c_id (map ?u t))"
      by (subst ids) (use assms in \<open>simp add: table_ok_def\<close>)
    ultimately have "table_ok (map ?u t)" unfolding table_ok_def by blast
    then show ?thesis using Update False assms by (auto simp: Let_def)
  qed
next
  case (Delete i)
  then show ?thesis using assms by (simp add: table_ok_def distinct_map_filter)
qed

lemma run_keeps_table_ok:
  assumes "table_ok t"
  shows "table_ok (snd (run fault idp cdn p t))"
proof (cases p)
  case (Store q k)
  then show ?thesis
    using assms db_perform_keeps_table_ok [OF assms, of q]
    by (auto simp: db_exec_def split: option.splits prod.splits)
qed (use assms in simp_all)

lemma text_credit_valid:
  "valid_bearer sample_verify sample_env text_credit_request ''good.token'' sample_payload"
  using sample_valid by (simp add: text_credit_request_def)

lemma text_credit_truthy: "\<forall>k \<in> set required_fields. truthy (field text_credit_request k)"
  by (simp add: required_fields_def field_def text_credit_request_def sample_request_def
      sample_body_def)

lemma text_credit_fields:
  "fields_of text_credit_request = sample_fields\<lparr>f_credit := JStr ''nine''\<rparr>"
  by (simp add: fields_of_def field_def text_credit_request_def sample_request_def
      sample_body_def sample_fields_def)

lemma text_credit_params: "params_id text_credit_request = ''1''"
  by (simp add: text_credit_request_def sample_request_def)

lemma zero_credit_valid:
  "valid_bearer sample_verify sample_env zero_credit_request ''good.token'' sample_payload"
  using sample_valid by (simp add: zero_credit_request_def)

lemma word_id_valid:
  "valid_bearer sample_verify sample_env word_id_request ''good.token'' sample_payload"
  using sample_valid by (simp add: word_id_request_def)

lemma sample_created_fresh: "fresh_id sample_table = ''11''"
  by (simp add: fresh_id_def sample_table_def)

section \<open>The authentication gate on the mutating endpoints\<close>

text \<open>
  C1 (as amended). On \<open>POST /courses\<close>, \<open>PUT /courses/:id\<close> and \<open>DELETE /courses/:id\<close>
  the gate answers 401 "Authorization header missing" when the header is absent or
  empty, and 401 "Access token required" when the header has no second word or an
  empty one. Otherwise the token is the second space-separated word of the header,
  whatever the first word (the scheme) is: when its verification against the configured
  secret fails the answer is 403 "Invalid or expired token", and when it succeeds the
  route handler runs on the request with the decoded payload attached as \<open>req.user\<close>.
  The hypotheses on \<open>scheme\<close>, \<open>tok\<close> and \<open>rest\<close> only name the parts of the header:
  every header is empty, or a scheme without a space, or \<open>scheme @ " " @ tok @ rest\<close>
  with \<open>rest\<close> empty or starting with a space.
\<close>

theorem gate_on_mutating_endpoints:
  assumes "mutating ep"
    and "CHR '' '' \<notin> set scheme" and "CHR '' '' \<notin> set tok"
    and "rest = [] \<or> hd rest = CHR '' ''"
  shows
    "(authorization req = None \<or> authorization req = Some [] \<longrightarrow>
        app jv b e ep req =
          Reply (json 401 (JObj [(''error'', JStr ''Authorization header missing'')])))
     \<and> (authorization req = Some scheme \<and> scheme \<noteq> [] \<longrightarrow>
        app jv b e ep req =
          Reply (json 401 (JObj [(''error'', JStr ''Access token required'')])))
     \<and> (authorization req = Some (scheme @ '' '' @ tok @ rest) \<and> tok = [] \<longrightarrow>
        app jv b e ep req =
          Reply (json 401 (JObj [(''error'', JStr ''Access token required'')])))
     \<and> (authorization req = Some (scheme @ '' '' @ tok @ rest) \<and> tok \<noteq> []
          \<and> jv tok (SUPABASE_JWT_SECRET e) = None \<longrightarrow>
        app jv b e ep req =
          Reply (json 403 (JObj [(''error'', JStr ''Invalid or expired token'')])))
     \<and> (authorization req = Some (scheme @ '' '' @ tok @ rest) \<and> tok \<noteq> []
          \<and> jv tok (SUPABASE_JWT_SECRET e) = Some p \<longrightarrow>
        app jv b e ep req = handler_of b ep (req\<lparr>user := Some p\<rparr>))"
proof -
  have a: "app jv b e ep req = guarded jv e (handler_of b ep) req"
    using assms(1) by (rule app_mutating)
  have none: "authorization req = None \<or> authorization req = Some [] \<Longrightarrow>
      app jv b e ep req =
        Reply (json 401 (JObj [(''error'', JStr ''Authorization header missing'')]))"
    using gate_no_header [of req jv e] by (simp add: a guarded_def)
  have only: "authorization req = Some scheme \<Longrightarrow> scheme \<noteq> [] \<Longrightarrow>
      app jv b e ep req =
        Reply (json 401 (JObj [(''error'', JStr ''Access token required'')]))"
    using gate_scheme_only [of req scheme jv e] assms(2) by (simp add: a guarded_def)
  have tok: "authorization req = Some (scheme @ '' '' @ tok @ rest) \<Longrightarrow>
      authenticateToken jv e req =
       (if tok = [] then Rejected (json 401 (JObj [(''error'', JStr ''Access token required'')]))
        else (case jv tok (SUPABASE_JWT_SECRET e) of
                None \<Rightarrow> Rejected (json 403 (JObj [(''error'', JStr ''Invalid or expired token'')]))
              | Some decoded \<Rightarrow> Next (req\<lparr>user := Some decoded\<rparr>)))"
    using gate_token [of req scheme tok rest jv e] assms(2,3,4) by simp
  show ?thesis
    using none only tok by (auto simp: a guarded_def)
qed

text \<open>The theorem at the sample request: a verified Bearer token reaches the handler;
  no header, a header without token and a token that does not verify are answered by
  the gate.\<close>

theorem gate_on_mutating_endpoints_witness:
  "app sample_verify sample_base64 sample_env DeleteCourse sample_request =
     delete_course (sample_request\<lparr>user := Some sample_payload\<rparr>)
   \<and> app sample_verify sample_base64 sample_env PostCourses
        (sample_request\<lparr>authorization := None\<rparr>) =
       Reply (json 401 (JObj [(''error'', JStr ''Authorization header missing'')]))
   \<and> app sample_verify sample_base64 sample_env PutCourse
        (sample_request\<lparr>authorization := Some ''Bearer''\<rparr>) =
       Reply (json 401 (JObj [(''error'', JStr ''Access token required'')]))
   \<and> app sample_verify sample_base64 sample_env PutCourse
        (sample_request\<lparr>authorization := Some ''Bearer bad.token''\<rparr>) =
       Reply (json 403 (JObj [(''error'', JStr ''Invalid or expired token'')]))"
proof -
  have m: "mutating DeleteCourse" "mutating PostCourses" "mutating PutCourse" by simp_all
  have s: "CHR '' '' \<notin> set ''Bearer''" "CHR '' '' \<notin> set ''good.token''"
    "CHR '' '' \<notin> set ''bad.token''" "([]::string) = [] \<or> hd [] = CHR '' ''"
    by simp_all
  have 1: "app sample_verify sample_base64 sample_env DeleteCourse sample_request =
     delete_course (sample_request\<lparr>user := Some sample_payload\<rparr>)"
    using gate_on_mutating_endpoints [OF m(1) s(1) s(2) s(4), where req = sample_request
        and jv = sample_verify and b = sample_base64 and e = sample_env and p = sample_payload]
    by (simp add: sample_request_def sample_verify_def sample_env_def sample_payload_def)
  have 2: "app sample_verify sample_base64 sample_env PostCourses
        (sample_request\<lparr>authorization := None\<rparr>) =
       Reply (json 401 (JObj [(''error'', JStr ''Authorization header missing'')]))"
    using gate_on_mutating_endpoints [OF m(2) s(1) s(2) s(4),
        where req = "sample_request\<lparr>authorization := None\<rparr>" and jv = sample_verify
        and b = sample_base64 and e = sample_env]
    by simp
  have 3: "app sample_verify sample_base64 sample_env PutCourse
        (sample_request\<lparr>authorization := Some ''Bearer''\<rparr>) =
       Reply (json 401 (JObj [(''error'', JStr ''Access token required'')]))"
    using gate_on_mutating_endpoints [OF m(3) s(1) s(2) s(4),
        where req = "sample_request\<lparr>authorization := Some ''Bearer''\<rparr>"
        and jv = sample_verify and b = sample_base64 and e = sample_env]
    by simp
  have 4: "app sample_verify sample_base64 sample_env PutCourse
        (sample_request\<lparr>authorization := Some ''Bearer bad.token''\<rparr>) =
       Reply (json 403 (JObj [(''error'', JStr ''Invalid or expired token'')]))"
    using gate_on_mutating_endpoints [OF m(3) s(1) s(3) s(4),
        where req = "sample_request\<lparr>authorization := Some ''Bearer bad.token''\<rparr>"
        and jv = sample_verify and b = sample_base64 and e = sample_env]
    by (simp add: sample_verify_def sample_env_def)
  show ?thesis using 1 2 3 4 by simp
qed

text \<open>C1 as stated fails: the header \<open>Basic good.token\<close> is not under the Bearer
  scheme, yet the gate calls \<open>next()\<close> and the delete handler sends its request to the
  table.\<close>

theorem gate_accepts_other_scheme:
  "authorization basic_request = Some ''Basic good.token''
   \<and> authenticateToken sample_verify sample_env basic_request =
       Next (basic_request\<lparr>user := Some sample_payload\<rparr>)
   \<and> store_calls (app sample_verify sample_base64 sample_env DeleteCourse basic_request) =
       [Delete ''1'']"
  by (simp add: basic_request_def authenticateToken_def index_def sample_verify_def
      sample_env_def sample_payload_def guarded_def delete_course_def Let_def)

section \<open>The course handlers and the table's answers\<close>

text \<open>
  C2. When the table answers a call with a unique-key violation (code \<open>23505\<close>),
  \<open>POST /courses\<close> responds 400 "Course with this code already exists", but
  \<open>PUT /courses/:id\<close> has no branch for the code and responds 500 "Failed to update
  course": the claim holds for create and fails for update.
\<close>

theorem duplicate_key_create_400_update_500:
  assumes "valid_bearer jv e req tok p"
    and "\<forall>k \<in> set required_fields. truthy (field req k)"
    and "db (Insert (fields_of req)) = DbError ''23505'' m"
    and "db (Update (params_id req) (fields_of req)) = DbError ''23505'' m"
  shows "respond db idp cdn (app jv b e PostCourses req) =
           json 400 (JObj [(''error'', JStr ''Course with this code already exists'')])
       \<and> respond db idp cdn (app jv b e PutCourse req) =
           json 500 (JObj [(''error'', JStr ''Failed to update course'')])"
proof -
  have t: "\<forall>k \<in> set required_fields. truthy (field (req\<lparr>user := Some p\<rparr>) k)"
    using assms(2) by simp
  have post: "respond db idp cdn (post_courses (req\<lparr>user := Some p\<rparr>)) =
           json 400 (JObj [(''error'', JStr ''Course with this code already exists'')])"
    using t assms(3) by (simp add: required_fields_def post_courses_def Let_def fields_of_def)
  have put: "respond db idp cdn (put_course (req\<lparr>user := Some p\<rparr>)) =
           json 500 (JObj [(''error'', JStr ''Failed to update course'')])"
    using t assms(4) by (simp add: required_fields_def put_course_def Let_def fields_of_def)
  show ?thesis
    using post put valid_bearer_passes [OF assms(1)] by simp
qed

text \<open>The theorem at the sample request, against a table client that reports the
  violation.\<close>

theorem duplicate_key_create_400_update_500_witness:
  "respond conflict_db sample_idp sample_cdn
      (app sample_verify sample_base64 sample_env PostCourses sample_request) =
     json 400 (JObj [(''error'', JStr ''Course with this code already exists'')])
   \<and> respond conflict_db sample_idp sample_cdn
      (app sample_verify sample_base64 sample_env PutCourse sample_request) =
     json 500 (JObj [(''error'', JStr ''Failed to update course'')])"
  using duplicate_key_create_400_update_500 [OF sample_valid sample_truthy,
      where db = conflict_db and m = "''duplicate key value violates unique constraint''"]
  by (simp add: conflict_db_def)

section \<open>The required-field check\<close>

text \<open>
  C3. A \<open>POST /courses\<close> request with a valid bearer token in which one of the five
  required fields is missing is answered 400 "All fields must be provided" by the handler
  itself: it sends no request to the table, so whatever the table holds is unchanged and
  no record is created.
\<close>

theorem post_courses_missing_field:
  assumes "valid_bearer jv e req tok p"
    and "k \<in> set required_fields" and "body req k = None"
  shows "app jv b e PostCourses req =
           Reply (json 400 (JObj [(''error'', JStr ''All fields must be provided'')]))
       \<and> store_calls (app jv b e PostCourses req) = []
       \<and> run fault idp cdn (app jv b e PostCourses req) t =
           (json 400 (JObj [(''error'', JStr ''All fields must be provided'')]), t)"
proof -
  have "\<not> truthy (field (req\<lparr>user := Some p\<rparr>) k)"
    using assms(3) by (simp add: field_def)
  then have "post_courses (req\<lparr>user := Some p\<rparr>) =
      Reply (json 400 (JObj [(''error'', JStr ''All fields must be provided'')]))"
    using assms(2) by (rule post_courses_falsy [rotated])
  from validation_reply [where h = post_courses, OF assms(1) this] show ?thesis by simp
qed

text \<open>The theorem at the sample request without its \<open>image\<close>.\<close>

theorem post_courses_missing_field_witness:
  "app sample_verify sample_base64 sample_env PostCourses no_image_request =
     Reply (json 400 (JObj [(''error'', JStr ''All fields must be provided'')]))
   \<and> store_calls (app sample_verify sample_base64 sample_env PostCourses no_image_request) = []
   \<and> run no_fault sample_idp sample_cdn
        (app sample_verify sample_base64 sample_env PostCourses no_image_request) sample_table =
       (json 400 (JObj [(''error'', JStr ''All fields must be provided'')]), sample_table)"
proof -
  have v: "valid_bearer sample_verify sample_env no_image_request ''good.token'' sample_payload"
    using sample_valid by (simp add: no_image_request_def)
  have k: "''image'' \<in> set required_fields" by (simp add: required_fields_def)
  have n: "body no_image_request ''image'' = None" by (simp add: no_image_request_def)
  show ?thesis by (rule post_courses_missing_field [OF v k n])
qed

text \<open>
  C10. The check is \<open>!field\<close>: on \<open>POST /courses\<close> and \<open>PUT /courses/:id\<close> a request
  with a valid bearer token in which a required field is present but holds the empty
  string, the number 0, \<open>null\<close> or \<open>false\<close> is answered 400 "All fields must be
  provided", as if the field were missing, and no request is sent to the table. With
  \<open>k = ''credit''\<close> and \<open>v = JNum 0\<close>: a course with credit 0 is neither created nor
  set by an update.
\<close>

theorem falsy_field_rejected:
  assumes "ep = PostCourses \<or> ep = PutCourse"
    and "valid_bearer jv e req tok p"
    and "k \<in> set required_fields" and "body req k = Some v"
    and "v \<in> {JStr [], JNum 0, JNull, JBool False}"
  shows "app jv b e ep req =
           Reply (json 400 (JObj [(''error'', JStr ''All fields must be provided'')]))
       \<and> store_calls (app jv b e ep req) = []
       \<and> run fault idp cdn (app jv b e ep req) t =
           (json 400 (JObj [(''error'', JStr ''All fields must be provided'')]), t)"
proof -
  have f: "\<not> truthy (field (req\<lparr>user := Some p\<rparr>) k)"
    using assms(4,5) by (auto simp: field_def)
  have "handler_of b ep (req\<lparr>user := Some p\<rparr>) =
      Reply (json 400 (JObj [(''error'', JStr ''All fields must be provided'')]))"
    using assms(1) post_courses_falsy [OF assms(3) f] put_course_falsy [OF assms(3) f] by auto
  from validation_reply [where h = "handler_of b ep", OF assms(2) this] assms(1) show ?thesis
    by (auto simp: app_mutating)
qed

text \<open>The theorem at the sample request with \<open>credit\<close> 0, on both endpoints.\<close>

theorem falsy_field_rejected_witness:
  "app sample_verify sample_base64 sample_env PostCourses zero_credit_request =
     Reply (json 400 (JObj [(''error'', JStr ''All fields must be provided'')]))
   \<and> run no_fault sample_idp sample_cdn
        (app sample_verify sample_base64 sample_env PostCourses zero_credit_request) [] =
       (json 400 (JObj [(''error'', JStr ''All fields must be provided'')]), [])
   \<and> store_calls (app sample_verify sample_base64 sample_env PutCourse zero_credit_request) = []
   \<and> run no_fault sample_idp sample_cdn
        (app sample_verify sample_base64 sample_env PutCourse zero_credit_request) sample_table =
       (json 400 (JObj [(''error'', JStr ''All fields must be provided'')]), sample_table)"
proof -
  have v: "valid_bearer sample_verify sample_env zero_credit_request ''good.token'' sample_payload"
    using sample_valid by (simp add: zero_credit_request_def)
  have k: "''credit'' \<in> set required_fields" by (simp add: required_fields_def)
  have n: "body zero_credit_request ''credit'' = Some (JNum 0)"
    by (simp add: zero_credit_request_def)
  have z: "JNum 0 \<in> {JStr [], JNum 0, JNull, JBool False}" by simp
  have e1: "PostCourses = PostCourses \<or> PostCourses = PutCourse" by simp
  have e2: "PutCourse = PostCourses \<or> PutCourse = PutCourse" by simp
  show ?thesis
    using falsy_field_rejected [OF e1 v k n z, where b = sample_base64 and fault = no_fault
        and idp = sample_idp and cdn = sample_cdn and t = "[]"]
      falsy_field_rejected [OF e2 v k n z, where b = sample_base64 and fault = no_fault
        and idp = sample_idp and cdn = sample_cdn and t = sample_table]
    by simp
qed

section \<open>The course handlers on the table\<close>

text \<open>
  C4 (as amended). A \<open>POST /courses\<close> request with a valid bearer token whose five
  fields are all truthy, on a table that satisfies its constraints. If the store fails
  on the insert for a reason other than a duplicate code, the response is 500 "Failed to
  add course" and nothing is created. If the store performs the insert and a course with
  the same code exists, the response is 400 "Course with this code already exists", the
  table is unchanged and holds exactly one record with that code. If the store performs
  the insert and no course has the code, the response is 201 with the created record,
  which carries an id assigned by the store that no other record has; the record is
  appended, and the table then holds exactly one record with that code. In every case
  the table still satisfies its constraints, so a second request with the same code falls
  under the second case.
\<close>

theorem post_courses_creates_or_conflicts:
  assumes "valid_bearer jv e req tok p"
    and "\<forall>k \<in> set required_fields. truthy (field req k)"
    and "table_ok t"
  shows "(fault (Insert (fields_of req)) t = Some (c, m) \<and> c \<noteq> ''23505'' \<longrightarrow>
            run fault idp cdn (app jv b e PostCourses req) t =
              (json 500 (JObj [(''error'', JStr ''Failed to add course'')]), t))
       \<and> (fault (Insert (fields_of req)) t = None
            \<and> field req ''code'' \<in> set (map c_code t) \<longrightarrow>
            run fault idp cdn (app jv b e PostCourses req) t =
              (json 400 (JObj [(''error'', JStr ''Course with this code already exists'')]), t)
            \<and> length (filter (\<lambda>r. c_code r = field req ''code'') t) = 1)
       \<and> (fault (Insert (fields_of req)) t = None
            \<and> field req ''code'' \<notin> set (map c_code t) \<longrightarrow>
            run fault idp cdn (app jv b e PostCourses req) t =
              (json 201 (course_json \<lparr>c_id = fresh_id t, c_fields = fields_of req\<rparr>),
               t @ [\<lparr>c_id = fresh_id t, c_fields = fields_of req\<rparr>])
            \<and> fresh_id t \<notin> set (map c_id t)
            \<and> length (filter (\<lambda>r. c_code r = field req ''code'')
                 (t @ [\<lparr>c_id = fresh_id t, c_fields = fields_of req\<rparr>])) = 1)
       \<and> table_ok (snd (run fault idp cdn (app jv b e PostCourses req) t))"
proof -
  let ?req = "req\<lparr>user := Some p\<rparr>"
  let ?new = "\<lparr>c_id = fresh_id t, c_fields = fields_of req\<rparr>"
  have t: "\<forall>k \<in> set required_fields. truthy (field ?req k)"
    using assms(2) by simp
  have a: "guarded jv e post_courses req = post_courses ?req"
    by (rule valid_bearer_passes [OF assms(1)])
  have failed: "fault (Insert (fields_of req)) t = Some (c, m) \<Longrightarrow> c \<noteq> ''23505'' \<Longrightarrow>
      run fault idp cdn (app jv b e PostCourses req) t =
        (json 500 (JObj [(''error'', JStr ''Failed to add course'')]), t)"
    using post_courses_run_failed [OF t, of fault t c m idp cdn] by (simp add: a)
  have dup: "fault (Insert (fields_of req)) t = None \<Longrightarrow>
      field req ''code'' \<in> set (map c_code t) \<Longrightarrow>
      run fault idp cdn (app jv b e PostCourses req) t =
        (json 400 (JObj [(''error'', JStr ''Course with this code already exists'')]), t)"
    using post_courses_run_conflict [OF t, of fault t idp cdn] by (simp add: a)
  have new: "fault (Insert (fields_of req)) t = None \<Longrightarrow>
      field req ''code'' \<notin> set (map c_code t) \<Longrightarrow>
      run fault idp cdn (app jv b e PostCourses req) t = (json 201 (course_json ?new), t @ [?new])"
    using post_courses_run_created [OF t, of fault t idp cdn] by (simp add: a)
  have one: "field req ''code'' \<notin> set (map c_code t) \<Longrightarrow>
      length (filter (\<lambda>r. c_code r = field req ''code'') (t @ [?new])) = 1"
  proof -
    assume n: "field req ''code'' \<notin> set (map c_code t)"
    then have "filter (\<lambda>r. c_code r = field req ''code'') t = []"
      by (rule filter_none)
    moreover have "c_code ?new = field req ''code''" by (simp add: c_code_def fields_of_def)
    ultimately show ?thesis by simp
  qed
  have inv: "table_ok (snd (run fault idp cdn (app jv b e PostCourses req) t))"
    by (rule run_keeps_table_ok [OF assms(3)])
  show ?thesis
    using failed dup new one inv fresh_id_new [of t] count_code_one [OF assms(3)] by blast
qed

text \<open>The theorem at the sample request: on a table that has not the code CS345, on
  one that has it, and against a store on which the statement times out.\<close>

theorem post_courses_creates_or_conflicts_witness:
  "run no_fault sample_idp sample_cdn
     (app sample_verify sample_base64 sample_env PostCourses sample_request) sample_table =
     (json 201 (course_json \<lparr>c_id = ''11'', c_fields = sample_fields\<rparr>),
      sample_table @ [\<lparr>c_id = ''11'', c_fields = sample_fields\<rparr>])
   \<and> run no_fault sample_idp sample_cdn
     (app sample_verify sample_base64 sample_env PostCourses sample_request) taken_table =
     (json 400 (JObj [(''error'', JStr ''Course with this code already exists'')]), taken_table)
   \<and> length (filter (\<lambda>r. c_code r = JStr ''CS345'') taken_table) = 1
   \<and> run timeout_fault sample_idp sample_cdn
     (app sample_verify sample_base64 sample_env PostCourses sample_request) sample_table =
     (json 500 (JObj [(''error'', JStr ''Failed to add course'')]), sample_table)"
proof -
  have in1: "JStr ''CS345'' \<in> set (map c_code taken_table)"
    by (simp add: taken_table_def c_code_def sample_fields_def)
  have out2: "JStr ''CS345'' \<notin> set (map c_code sample_table)"
    by (simp add: sample_table_def c_code_def old_fields_def maths_fields_def)
  have c: "''57014'' \<noteq> ''23505''" by simp
  show ?thesis
    using post_courses_creates_or_conflicts [OF sample_valid sample_truthy sample_table_ok,
        where fault = no_fault and idp = sample_idp and cdn = sample_cdn and b = sample_base64]
      post_courses_creates_or_conflicts [OF sample_valid sample_truthy taken_table_ok,
        where fault = no_fault and idp = sample_idp and cdn = sample_cdn and b = sample_base64]
      post_courses_creates_or_conflicts [OF sample_valid sample_truthy sample_table_ok,
        where fault = timeout_fault and idp = sample_idp and cdn = sample_cdn
        and b = sample_base64 and c = "''57014''"
        and m = "''canceling statement due to statement timeout''"]
      in1 out2 c
    by (simp add: sample_code sample_fields_of sample_created_fresh no_fault_def
        timeout_fault_def)
qed

text \<open>C4 as stated fails twice on a request with a valid token whose code no course
  has. With \<open>credit\<close> 0 all five fields are present and the response is 400. With
  \<open>credit\<close> written as the word "nine" all five fields are truthy, the store rejects the
  value, and the response is 500. Neither is 201.\<close>

theorem post_courses_not_always_201:
  "body zero_credit_request ''name'' = Some (JStr ''Algorithms'')
   \<and> body zero_credit_request ''code'' = Some (JStr ''CS345'')
   \<and> body zero_credit_request ''description'' = Some (JStr ''Design and analysis'')
   \<and> body zero_credit_request ''credit'' = Some (JNum 0)
   \<and> body zero_credit_request ''image'' = Some (JStr ''https://cdn.example/cs345.png'')
   \<and> valid_bearer sample_verify sample_env zero_credit_request ''good.token'' sample_payload
   \<and> run no_fault sample_idp sample_cdn
        (app sample_verify sample_base64 sample_env PostCourses zero_credit_request) [] =
       (json 400 (JObj [(''error'', JStr ''All fields must be provided'')]), [])
   \<and> truthy (field text_credit_request ''name'') \<and> truthy (field text_credit_request ''code'')
   \<and> truthy (field text_credit_request ''description'')
   \<and> truthy (field text_credit_request ''credit'') \<and> truthy (field text_credit_request ''image'')
   \<and> valid_bearer sample_verify sample_env text_credit_request ''good.token'' sample_payload
   \<and> field text_credit_request ''code'' \<notin> set (map c_code sample_table)
   \<and> run type_fault sample_idp sample_cdn
        (app sample_verify sample_base64 sample_env PostCourses text_credit_request) sample_table =
       (json 500 (JObj [(''error'', JStr ''Failed to add course'')]), sample_table)"
proof -
  have "\<not> truthy (field (zero_credit_request\<lparr>user := Some sample_payload\<rparr>) ''credit'')"
    by (simp add: field_def zero_credit_request_def)
  then have "post_courses (zero_credit_request\<lparr>user := Some sample_payload\<rparr>) =
      Reply (json 400 (JObj [(''error'', JStr ''All fields must be provided'')]))"
    by (simp add: post_courses_falsy [of "''credit''"] required_fields_def)
  then have 1: "run no_fault sample_idp sample_cdn
        (app sample_verify sample_base64 sample_env PostCourses zero_credit_request) [] =
       (json 400 (JObj [(''error'', JStr ''All fields must be provided'')]), [])"
    using valid_bearer_passes [OF zero_credit_valid] by simp
  have t: "\<forall>k \<in> set required_fields.
      truthy (field (text_credit_request\<lparr>user := Some sample_payload\<rparr>) k)"
    using text_credit_truthy by simp
  have f: "type_fault (Insert (fields_of (text_credit_request\<lparr>user := Some sample_payload\<rparr>)))
      sample_table = Some (''22P02'', ''invalid input syntax for type numeric'')"
    by (simp add: text_credit_fields)
  have "run type_fault sample_idp sample_cdn
      (post_courses (text_credit_request\<lparr>user := Some sample_payload\<rparr>)) sample_table =
       (json 500 (JObj [(''error'', JStr ''Failed to add course'')]), sample_table)"
    using post_courses_run_failed [where fault = type_fault, OF t f] by simp
  then have 2: "run type_fault sample_idp sample_cdn
        (app sample_verify sample_base64 sample_env PostCourses text_credit_request) sample_table =
       (json 500 (JObj [(''error'', JStr ''Failed to add course'')]), sample_table)"
    using valid_bearer_passes [OF text_credit_valid] by simp
  have 3: "field text_credit_request ''code'' \<notin> set (map c_code sample_table)"
    by (simp add: field_def text_credit_request_def sample_request_def sample_body_def
        sample_table_def c_code_def old_fields_def maths_fields_def)
  have 4: "truthy (field text_credit_request ''name'') \<and> truthy (field text_credit_request ''code'')
   \<and> truthy (field text_credit_request ''description'')
   \<and> truthy (field text_credit_request ''credit'') \<and> truthy (field text_credit_request ''image'')"
    using text_credit_truthy by (simp add: required_fields_def)
  have 5: "body zero_credit_request ''name'' = Some (JStr ''Algorithms'')
   \<and> body zero_credit_request ''code'' = Some (JStr ''CS345'')
   \<and> body zero_credit_request ''description'' = Some (JStr ''Design and analysis'')
   \<and> body zero_credit_request ''credit'' = Some (JNum 0)
   \<and> body zero_credit_request ''image'' = Some (JStr ''https://cdn.example/cs345.png'')"
    by (simp add: zero_credit_request_def sample_request_def sample_body_def)
  show ?thesis
    using 1 2 3 4 5 zero_credit_valid text_credit_valid by blast
qed

text \<open>
  C5 (as amended). A \<open>PUT /courses/:id\<close> request with a valid bearer token whose five
  fields are all truthy, on a table that satisfies its constraints. If the store fails
  on the update for a reason other than a duplicate code, the response is 500 "Failed to
  update course" and the table is unchanged. If the store performs the update and no
  record has the id, the response is 404 "Course not found" and the table is unchanged.
  If the store performs the update, a record has the id and no other record has the new
  code, the response is 200 with that record, its five fields replaced and its id kept,
  and the table differs in that record only. In every case the table still satisfies
  its constraints.
\<close>

theorem put_course_updates_or_404:
  assumes "valid_bearer jv e req tok p"
    and "\<forall>k \<in> set required_fields. truthy (field req k)"
    and "table_ok t"
  shows "(fault (Update (params_id req) (fields_of req)) t = Some (c, m) \<and> c \<noteq> ''23505'' \<longrightarrow>
            run fault idp cdn (app jv b e PutCourse req) t =
              (json 500 (JObj [(''error'', JStr ''Failed to update course'')]), t))
       \<and> (fault (Update (params_id req) (fields_of req)) t = None
            \<and> params_id req \<notin> set (map c_id t) \<longrightarrow>
            run fault idp cdn (app jv b e PutCourse req) t =
              (json 404 (JObj [(''error'', JStr ''Course not found'')]), t))
       \<and> (fault (Update (params_id req) (fields_of req)) t = None
            \<and> r \<in> set t \<and> c_id r = params_id req
            \<and> field req ''code'' \<notin> set (map c_code (remove1 r t)) \<longrightarrow>
            run fault idp cdn (app jv b e PutCourse req) t =
              (json 200 (course_json (r\<lparr>c_fields := fields_of req\<rparr>)),
               map (\<lambda>x. if c_id x = params_id req then x\<lparr>c_fields := fields_of req\<rparr> else x) t))
       \<and> table_ok (snd (run fault idp cdn (app jv b e PutCourse req) t))"
proof -
  let ?req = "req\<lparr>user := Some p\<rparr>"
  have t: "\<forall>k \<in> set required_fields. truthy (field ?req k)"
    using assms(2) by simp
  have a: "guarded jv e put_course req = put_course ?req"
    by (rule valid_bearer_passes [OF assms(1)])
  have failed: "fault (Update (params_id req) (fields_of req)) t = Some (c, m) \<Longrightarrow>
      run fault idp cdn (app jv b e PutCourse req) t =
        (json 500 (JObj [(''error'', JStr ''Failed to update course'')]), t)"
    using put_course_run_failed [OF t, of fault t c m idp cdn] by (simp add: a)
  have missing: "fault (Update (params_id req) (fields_of req)) t = None \<Longrightarrow>
      params_id req \<notin> set (map c_id t) \<Longrightarrow>
      run fault idp cdn (app jv b e PutCourse req) t =
        (json 404 (JObj [(''error'', JStr ''Course not found'')]), t)"
    using put_course_run_missing [OF t, of fault t idp cdn] by (simp add: a)
  have found: "fault (Update (params_id req) (fields_of req)) t = None \<Longrightarrow>
      r \<in> set t \<Longrightarrow> c_id r = params_id req \<Longrightarrow>
      field req ''code'' \<notin> set (map c_code (remove1 r t)) \<Longrightarrow>
      run fault idp cdn (app jv b e PutCourse req) t =
        (json 200 (course_json (r\<lparr>c_fields := fields_of req\<rparr>)),
         map (\<lambda>x. if c_id x = params_id req then x\<lparr>c_fields := fields_of req\<rparr> else x) t)"
    using put_course_run_updated [OF t, of fault t r idp cdn] assms(3) by (simp add: a)
  have inv: "table_ok (snd (run fault idp cdn (app jv b e PutCourse req) t))"
    by (rule run_keeps_table_ok [OF assms(3)])
  show ?thesis using failed missing found inv by blast
qed

text \<open>The theorem on the sample table: an id that is absent, the id 1, and the id 1
  against a store on which the statement times out.\<close>

theorem put_course_updates_or_404_witness:
  "run no_fault sample_idp sample_cdn
     (app sample_verify sample_base64 sample_env PutCourse absent_id_request) sample_table =
     (json 404 (JObj [(''error'', JStr ''Course not found'')]), sample_table)
   \<and> run no_fault sample_idp sample_cdn
     (app sample_verify sample_base64 sample_env PutCourse sample_request) sample_table =
     (json 200 (course_json \<lparr>c_id = ''1'', c_fields = sample_fields\<rparr>), taken_table)
   \<and> run timeout_fault sample_idp sample_cdn
     (app sample_verify sample_base64 sample_env PutCourse sample_request) sample_table =
     (json 500 (JObj [(''error'', JStr ''Failed to update course'')]), sample_table)"
proof -
  have v: "valid_bearer sample_verify sample_env absent_id_request ''good.token'' sample_payload"
    using sample_valid by (simp add: absent_id_request_def)
  have t: "\<forall>k \<in> set required_fields. truthy (field absent_id_request k)"
    using sample_truthy by (simp add: absent_id_request_def)
  have 1: "run no_fault sample_idp sample_cdn
     (app sample_verify sample_base64 sample_env PutCourse absent_id_request) sample_table =
     (json 404 (JObj [(''error'', JStr ''Course not found'')]), sample_table)"
    using put_course_updates_or_404 [OF v t sample_table_ok, where fault = no_fault
        and idp = sample_idp and cdn = sample_cdn and b = sample_base64]
    by (simp add: absent_id_request_def sample_table_def no_fault_def)
  have 2: "run no_fault sample_idp sample_cdn
     (app sample_verify sample_base64 sample_env PutCourse sample_request) sample_table =
     (json 200 (course_json \<lparr>c_id = ''1'', c_fields = sample_fields\<rparr>), taken_table)"
    using put_course_updates_or_404 [OF sample_valid sample_truthy sample_table_ok,
        where fault = no_fault and idp = sample_idp and cdn = sample_cdn and b = sample_base64
        and r = "\<lparr>c_id = ''1'', c_fields = old_fields\<rparr>"]
    by (simp add: sample_code sample_fields_of sample_params sample_table_def
        taken_table_def c_code_def maths_fields_def no_fault_def)
  have 3: "run timeout_fault sample_idp sample_cdn
     (app sample_verify sample_base64 sample_env PutCourse sample_request) sample_table =
     (json 500 (JObj [(''error'', JStr ''Failed to update course'')]), sample_table)"
    using put_course_updates_or_404 [OF sample_valid sample_truthy sample_table_ok,
        where fault = timeout_fault and idp = sample_idp and cdn = sample_cdn
        and b = sample_base64 and c = "''57014''"
        and m = "''canceling statement due to statement timeout''"]
    by (simp add: timeout_fault_def)
  show ?thesis using 1 2 3 by simp
qed

text \<open>C5 as stated fails three times on a record that matches the id: with \<open>credit\<close>
  0 all five fields are present and the response is 400; with a code that another record
  has, the response is 500; with \<open>credit\<close> written as a word the store rejects the value
  and the response is 500. None is 200, and the table is unchanged.\<close>

theorem put_course_not_always_200:
  "body zero_credit_request ''credit'' = Some (JNum 0)
   \<and> params_id zero_credit_request \<in> set (map c_id sample_table)
   \<and> run no_fault sample_idp sample_cdn
        (app sample_verify sample_base64 sample_env PutCourse zero_credit_request) sample_table =
       (json 400 (JObj [(''error'', JStr ''All fields must be provided'')]), sample_table)
   \<and> params_id sample_request \<in> set (map c_id clash_table)
   \<and> run no_fault sample_idp sample_cdn
        (app sample_verify sample_base64 sample_env PutCourse sample_request) clash_table =
       (json 500 (JObj [(''error'', JStr ''Failed to update course'')]), clash_table)
   \<and> truthy (field text_credit_request ''credit'')
   \<and> params_id text_credit_request \<in> set (map c_id sample_table)
   \<and> run type_fault sample_idp sample_cdn
        (app sample_verify sample_base64 sample_env PutCourse text_credit_request) sample_table =
       (json 500 (JObj [(''error'', JStr ''Failed to update course'')]), sample_table)"
proof -
  have "\<not> truthy (field (zero_credit_request\<lparr>user := Some sample_payload\<rparr>) ''credit'')"
    by (simp add: field_def zero_credit_request_def)
  then have "put_course (zero_credit_request\<lparr>user := Some sample_payload\<rparr>) =
      Reply (json 400 (JObj [(''error'', JStr ''All fields must be provided'')]))"
    by (simp add: put_course_falsy [of "''credit''"] required_fields_def)
  then have 1: "run no_fault sample_idp sample_cdn
        (app sample_verify sample_base64 sample_env PutCourse zero_credit_request) sample_table =
       (json 400 (JObj [(''error'', JStr ''All fields must be provided'')]), sample_table)"
    using valid_bearer_passes [OF zero_credit_valid] by simp
  have t: "\<forall>k \<in> set required_fields. truthy (field (sample_request\<lparr>user := Some sample_payload\<rparr>) k)"
    using sample_truthy by simp
  have "run no_fault sample_idp sample_cdn
      (put_course (sample_request\<lparr>user := Some sample_payload\<rparr>)) clash_table =
      (json 500 (JObj [(''error'', JStr ''Failed to update course'')]), clash_table)"
    using t
    by (simp add: required_fields_def put_course_def Let_def sample_code sample_params
        clash_table_def c_code_def sample_fields_def db_exec_def no_fault_def)
  then have 2: "run no_fault sample_idp sample_cdn
        (app sample_verify sample_base64 sample_env PutCourse sample_request) clash_table =
       (json 500 (JObj [(''error'', JStr ''Failed to update course'')]), clash_table)"
    using valid_bearer_passes [OF sample_valid] by simp
  have tt: "\<forall>k \<in> set required_fields.
      truthy (field (text_credit_request\<lparr>user := Some sample_payload\<rparr>) k)"
    using text_credit_truthy by simp
  have f: "type_fault (Update (params_id (text_credit_request\<lparr>user := Some sample_payload\<rparr>))
      (fields_of (text_credit_request\<lparr>user := Some sample_payload\<rparr>))) sample_table =
      Some (''22P02'', ''invalid input syntax'')"
    by (simp add: text_credit_fields)
  have "run type_fault sample_idp sample_cdn
      (put_course (text_credit_request\<lparr>user := Some sample_payload\<rparr>)) sample_table =
       (json 500 (JObj [(''error'', JStr ''Failed to update course'')]), sample_table)"
    using put_course_run_failed [where fault = type_fault, OF tt f] by simp
  then have 3: "run type_fault sample_idp sample_cdn
        (app sample_verify sample_base64 sample_env PutCourse text_credit_request) sample_table =
       (json 500 (JObj [(''error'', JStr ''Failed to update course'')]), sample_table)"
    using valid_bearer_passes [OF text_credit_valid] by simp
  have 4: "truthy (field text_credit_request ''credit'')"
    using text_credit_truthy by (simp add: required_fields_def)
  have 5: "body zero_credit_request ''credit'' = Some (JNum 0)
    \<and> params_id zero_credit_request \<in> set (map c_id sample_table)
    \<and> params_id sample_request \<in> set (map c_id clash_table)
    \<and> params_id text_credit_request \<in> set (map c_id sample_table)"
    by (simp add: zero_credit_request_def text_credit_params sample_params sample_table_def
        clash_table_def)
  show ?thesis using 1 2 3 4 5 by blast
qed

text \<open>
  C6 (as amended). A \<open>DELETE /courses/:id\<close> request with a valid bearer token, on a
  table that satisfies its constraints. If the store fails on the delete, the response is
  500 with the plain text "Server error" and nothing is removed. If the store performs
  the delete and no record has the id, the response is 404 "Course not found" (and the
  table is unchanged). If the store performs the delete and a record has the id, exactly
  that record is removed and the response is 200 with the plain text "Course deleted
  successfully". In every case the table still satisfies its constraints.
\<close>

theorem delete_course_removes_or_404:
  assumes "valid_bearer jv e req tok p" and "table_ok t"
  shows "(fault (Delete (params_id req)) t = Some (c, m) \<longrightarrow>
            run fault idp cdn (app jv b e DeleteCourse req) t = (send 500 ''Server error'', t))
       \<and> (fault (Delete (params_id req)) t = None \<and> params_id req \<notin> set (map c_id t) \<longrightarrow>
            run fault idp cdn (app jv b e DeleteCourse req) t = (send 404 ''Course not found'', t))
       \<and> (fault (Delete (params_id req)) t = None \<and> r \<in> set t \<and> c_id r = params_id req \<longrightarrow>
            run fault idp cdn (app jv b e DeleteCourse req) t =
              (send 200 ''Course deleted successfully'', remove1 r t))
       \<and> table_ok (snd (run fault idp cdn (app jv b e DeleteCourse req) t))"
proof -
  let ?req = "req\<lparr>user := Some p\<rparr>"
  have a: "guarded jv e delete_course req = delete_course ?req"
    by (rule valid_bearer_passes [OF assms(1)])
  have failed: "fault (Delete (params_id req)) t = Some (c, m) \<Longrightarrow>
      run fault idp cdn (app jv b e DeleteCourse req) t = (send 500 ''Server error'', t)"
    using delete_course_run_failed [of fault ?req t c m idp cdn] by (simp add: a)
  have missing: "fault (Delete (params_id req)) t = None \<Longrightarrow>
      params_id req \<notin> set (map c_id t) \<Longrightarrow>
      run fault idp cdn (app jv b e DeleteCourse req) t = (send 404 ''Course not found'', t)"
    using delete_course_run_missing [of fault ?req t idp cdn] by (simp add: a)
  have found: "fault (Delete (params_id req)) t = None \<Longrightarrow>
      r \<in> set t \<Longrightarrow> c_id r = params_id req \<Longrightarrow>
      run fault idp cdn (app jv b e DeleteCourse req) t =
        (send 200 ''Course deleted successfully'', remove1 r t)"
    using delete_course_run_removed [of fault ?req t r idp cdn] assms(2) by (simp add: a)
  have inv: "table_ok (snd (run fault idp cdn (app jv b e DeleteCourse req) t))"
    by (rule run_keeps_table_ok [OF assms(2)])
  show ?thesis using failed missing found inv by blast
qed

text \<open>The theorem on the sample table: an id that is absent, the id 1, and the id 1
  against a store on which the statement times out.\<close>

theorem delete_course_removes_or_404_witness:
  "run no_fault sample_idp sample_cdn
     (app sample_verify sample_base64 sample_env DeleteCourse absent_id_request) sample_table =
     (send 404 ''Course not found'', sample_table)
   \<and> run no_fault sample_idp sample_cdn
     (app sample_verify sample_base64 sample_env DeleteCourse sample_request) sample_table =
     (send 200 ''Course deleted successfully'', [\<lparr>c_id = ''2'', c_fields = maths_fields\<rparr>])
   \<and> run timeout_fault sample_idp sample_cdn
     (app sample_verify sample_base64 sample_env DeleteCourse sample_request) sample_table =
     (send 500 ''Server error'', sample_table)"
proof -
  have v: "valid_bearer sample_verify sample_env absent_id_request ''good.token'' sample_payload"
    using sample_valid by (simp add: absent_id_request_def)
  have 1: "run no_fault sample_idp sample_cdn
     (app sample_verify sample_base64 sample_env DeleteCourse absent_id_request) sample_table =
     (send 404 ''Course not found'', sample_table)"
    using delete_course_removes_or_404 [OF v sample_table_ok, where fault = no_fault
        and idp = sample_idp and cdn = sample_cdn and b = sample_base64]
    by (simp add: absent_id_request_def sample_table_def no_fault_def)
  have 2: "run no_fault sample_idp sample_cdn
     (app sample_verify sample_base64 sample_env DeleteCourse sample_request) sample_table =
     (send 200 ''Course deleted successfully'', [\<lparr>c_id = ''2'', c_fields = maths_fields\<rparr>])"
    using delete_course_removes_or_404 [OF sample_valid sample_table_ok, where fault = no_fault
        and idp = sample_idp and cdn = sample_cdn and b = sample_base64
        and r = "\<lparr>c_id = ''1'', c_fields = old_fields\<rparr>"]
    by (simp add: sample_params sample_table_def no_fault_def)
  have 3: "run timeout_fault sample_idp sample_cdn
     (app sample_verify sample_base64 sample_env DeleteCourse sample_request) sample_table =
     (send 500 ''Server error'', sample_table)"
    using delete_course_removes_or_404 [OF sample_valid sample_table_ok,
        where fault = timeout_fault and idp = sample_idp and cdn = sample_cdn
        and b = sample_base64 and c = "''57014''"
        and m = "''canceling statement due to statement timeout''"]
    by (simp add: timeout_fault_def)
  show ?thesis using 1 2 3 by simp
qed

text \<open>C6 as stated fails: for the id "abc", which no record has, a store that rejects
  the value answers with an error and the response is 500, not 404; for the id 1, which
  a record has, a store on which the statement times out leaves the response 500, not
  200, and the record in the table.\<close>

theorem delete_course_store_failure_is_500:
  "params_id word_id_request \<notin> set (map c_id sample_table)
   \<and> valid_bearer sample_verify sample_env word_id_request ''good.token'' sample_payload
   \<and> run type_fault sample_idp sample_cdn
        (app sample_verify sample_base64 sample_env DeleteCourse word_id_request) sample_table =
       (send 500 ''Server error'', sample_table)
   \<and> params_id sample_request \<in> set (map c_id sample_table)
   \<and> valid_bearer sample_verify sample_env sample_request ''good.token'' sample_payload
   \<and> run timeout_fault sample_idp sample_cdn
        (app sample_verify sample_base64 sample_env DeleteCourse sample_request) sample_table =
       (send 500 ''Server error'', sample_table)"
proof -
  have w: "params_id (word_id_request\<lparr>user := Some sample_payload\<rparr>) = ''abc''"
    by (simp add: word_id_request_def)
  have f: "type_fault (Delete (params_id (word_id_request\<lparr>user := Some sample_payload\<rparr>)))
      sample_table = Some (''22P02'', ''invalid input syntax for type bigint'')"
    by (simp add: w digits_def)
  have "run type_fault sample_idp sample_cdn
      (delete_course (word_id_request\<lparr>user := Some sample_payload\<rparr>)) sample_table =
      (send 500 ''Server error'', sample_table)"
    using delete_course_run_failed [where fault = type_fault, OF f] by simp
  then have 1: "run type_fault sample_idp sample_cdn
        (app sample_verify sample_base64 sample_env DeleteCourse word_id_request) sample_table =
       (send 500 ''Server error'', sample_table)"
    using valid_bearer_passes [OF word_id_valid] by simp
  have g: "timeout_fault (Delete (params_id (sample_request\<lparr>user := Some sample_payload\<rparr>)))
      sample_table = Some (''57014'', ''canceling statement due to statement timeout'')"
    by (simp add: timeout_fault_def)
  have "run timeout_fault sample_idp sample_cdn
      (delete_course (sample_request\<lparr>user := Some sample_payload\<rparr>)) sample_table =
      (send 500 ''Server error'', sample_table)"
    using delete_course_run_failed [where fault = timeout_fault, OF g] by simp
  then have 2: "run timeout_fault sample_idp sample_cdn
        (app sample_verify sample_base64 sample_env DeleteCourse sample_request) sample_table =
       (send 500 ''Server error'', sample_table)"
    using valid_bearer_passes [OF sample_valid] by simp
  have 3: "params_id word_id_request \<notin> set (map c_id sample_table)
    \<and> params_id sample_request \<in> set (map c_id sample_table)"
    by (simp add: word_id_request_def sample_params sample_table_def)
  show ?thesis using 1 2 3 word_id_valid sample_valid by blast
qed

section \<open>Login, registration and image upload\<close>

text \<open>
  C7. On \<open>POST /login\<close>, when the identity provider reports an error whose message
  contains "Invalid login credentials", the response is 400 with message "Invalid
  credentials"; when the provider accepts the credentials and issues a session with a
  non-empty access token, the response is 200 with a non-empty token that is exactly
  that access token. The handler depends on neither the verifier nor the environment
  with its signing secrets: \<open>generateToken\<close> takes no part in it.
\<close>

theorem post_login_outcomes:
  "(idp (SignInWithPassword (field req ''username'') (field req ''password'')) = AuthError m
      \<and> js_includes m ''Invalid login credentials'' \<longrightarrow>
      respond db idp cdn (app jv b e PostLogin req) =
        json 400 (JObj [(''message'', JStr ''Invalid credentials'')]))
   \<and> (idp (SignInWithPassword (field req ''username'') (field req ''password'')) =
        AuthData (Some s) \<and> access_token s \<noteq> [] \<longrightarrow>
      (\<exists>token. token \<noteq> [] \<and> token = access_token s
         \<and> respond db idp cdn (app jv b e PostLogin req) =
             json 200 (JObj [(''token'', JStr token)])))
   \<and> app jv' b' e' PostLogin req = app jv b e PostLogin req"
  by (simp add: post_login_def Let_def)

text \<open>The theorem at the sample login request, against a provider that rejects the
  password and against one that issues a session.\<close>

theorem post_login_outcomes_witness:
  "respond sample_db wrong_password_idp sample_cdn
     (app sample_verify sample_base64 sample_env PostLogin login_request) =
     json 400 (JObj [(''message'', JStr ''Invalid credentials'')])
   \<and> respond sample_db sample_idp sample_cdn
     (app sample_verify sample_base64 sample_env PostLogin login_request) =
     json 200 (JObj [(''token'', JStr ''provider.issued.jwt'')])"
proof -
  have i: "js_includes ''Invalid login credentials'' ''Invalid login credentials''"
    by simp
  show ?thesis
    using post_login_outcomes [where idp = wrong_password_idp and req = login_request
        and m = "''Invalid login credentials''" and db = sample_db and cdn = sample_cdn
        and jv = sample_verify and b = sample_base64 and e = sample_env]
      post_login_outcomes [where idp = sample_idp and req = login_request
        and s = sample_session and db = sample_db and cdn = sample_cdn
        and jv = sample_verify and b = sample_base64 and e = sample_env]
      i
    by (simp add: wrong_password_idp_def sample_idp_def sample_session_def)
qed

text \<open>
  C8 (as amended). On \<open>POST /register\<close>, when the identity provider reports an error
  whose message contains "already registered", the response is 400 with message
  "Username already exists"; when the provider reports no error, the response is 201
  with the message "User registered successfully" and nothing else, whether or not the
  provider opened a session; any other error of the provider gives 500 "Internal Server
  Error".
\<close>

theorem post_register_outcomes:
  "(idp (SignUp (field req ''username'') (field req ''password'')) = AuthError m
      \<and> js_includes m ''already registered'' \<longrightarrow>
      respond db idp cdn (app jv b e PostRegister req) =
        json 400 (JObj [(''message'', JStr ''Username already exists'')]))
   \<and> (idp (SignUp (field req ''username'') (field req ''password'')) = AuthData s \<longrightarrow>
      respond db idp cdn (app jv b e PostRegister req) =
        json 201 (JObj [(''message'', JStr ''User registered successfully'')]))
   \<and> (idp (SignUp (field req ''username'') (field req ''password'')) = AuthError m
      \<and> \<not> js_includes m ''already registered'' \<longrightarrow>
      respond db idp cdn (app jv b e PostRegister req) =
        json 500 (JObj [(''message'', JStr ''Internal Server Error'')]))"
  by (simp add: post_register_def Let_def)

text \<open>The theorem at the sample request, against a provider that knows the identity
  and against one that accepts it.\<close>

theorem post_register_outcomes_witness:
  "respond sample_db registered_idp sample_cdn
     (app sample_verify sample_base64 sample_env PostRegister login_request) =
     json 400 (JObj [(''message'', JStr ''Username already exists'')])
   \<and> respond sample_db sample_idp sample_cdn
     (app sample_verify sample_base64 sample_env PostRegister login_request) =
     json 201 (JObj [(''message'', JStr ''User registered successfully'')])"
proof -
  have i: "js_includes ''User already registered'' ''already registered''"
    by simp
  show ?thesis
    using post_register_outcomes [where idp = registered_idp and req = login_request
        and m = "''User already registered''" and db = sample_db and cdn = sample_cdn
        and jv = sample_verify and b = sample_base64 and e = sample_env]
      post_register_outcomes [where idp = sample_idp and req = login_request
        and s = "Some sample_session" and db = sample_db and cdn = sample_cdn
        and jv = sample_verify and b = sample_base64 and e = sample_env]
      i
    by (simp add: registered_idp_def sample_idp_def)
qed

text \<open>C8 as stated fails: the provider does not report that the identity exists (it
  rejects the password as too short), and the response is 500, not 201.\<close>

theorem post_register_other_error_is_500:
  "weak_password_idp (SignUp (field login_request ''username'') (field login_request ''password''))
     = AuthError ''Password should be at least 6 characters''
   \<and> \<not> js_includes ''Password should be at least 6 characters'' ''already registered''
   \<and> respond sample_db weak_password_idp sample_cdn
        (app sample_verify sample_base64 sample_env PostRegister login_request) =
       json 500 (JObj [(''message'', JStr ''Internal Server Error'')])"
  by (simp add: weak_password_idp_def post_register_def Let_def)

text \<open>
  C9. \<open>POST /upload-image\<close> is registered without the authentication middleware: its
  behaviour is the same whatever the \<open>Authorization\<close> header, the verifier and the secret
  are. When the CDN upload of the received file succeeds the response is 200 with the
  CDN's secure URL; when it fails the response is 500 "Image upload failed".
\<close>

theorem upload_image_outcomes:
  "app jv b e PostUploadImage (req\<lparr>authorization := h\<rparr>) = app jv' b e' PostUploadImage req
   \<and> (req_file req = Some f
        \<and> cdn (Upload (''data:'' @ mimetype f @ '';base64,'' @ b (buffer f)) ''courses'') =
            CdnUploaded url \<longrightarrow>
      respond db idp cdn (app jv b e PostUploadImage req) =
        json 200 (JObj [(''imageUrl'', JStr url)]))
   \<and> (req_file req = Some f
        \<and> cdn (Upload (''data:'' @ mimetype f @ '';base64,'' @ b (buffer f)) ''courses'') =
            CdnFailure \<longrightarrow>
      respond db idp cdn (app jv b e PostUploadImage req) =
        json 500 (JObj [(''error'', JStr ''Image upload failed'')]))"
  by (simp add: post_upload_image_def)

text \<open>The theorem at a request without \<open>Authorization\<close> header, against a CDN that
  stores the file and against one that fails.\<close>

theorem upload_image_outcomes_witness:
  "authorization upload_request = None
   \<and> respond sample_db sample_idp sample_cdn
     (app sample_verify sample_base64 sample_env PostUploadImage upload_request) =
     json 200 (JObj [(''imageUrl'', JStr ''https://res.cloudinary.example/courses/a.png'')])
   \<and> respond sample_db sample_idp failing_cdn
     (app sample_verify sample_base64 sample_env PostUploadImage upload_request) =
     json 500 (JObj [(''error'', JStr ''Image upload failed'')])"
proof -
  have f: "req_file upload_request = Some sample_file" by (simp add: upload_request_def)
  show ?thesis
    using upload_image_outcomes [where req = upload_request and f = sample_file
        and cdn = sample_cdn and url = "''https://res.cloudinary.example/courses/a.png''"
        and db = sample_db and idp = sample_idp
        and jv = sample_verify and b = sample_base64 and e = sample_env]
      upload_image_outcomes [where req = upload_request and f = sample_file
        and cdn = failing_cdn and db = sample_db and idp = sample_idp
        and jv = sample_verify and b = sample_base64 and e = sample_env]
      f
    by (simp add: sample_cdn_def failing_cdn_def upload_request_def)
qed

end
